theory Spec2Isabelle
  imports Complex_Main
begin

section \<open>JavaScript numbers\<close>

text \<open>
  A JavaScript number is a finite value, one of the two infinities, or NaN. Finite values are
  taken as exact reals: rounding, overflow and underflow of IEEE doubles are left out, and the
  two zeros are one (so a zero divisor counts as \<open>+0\<close>). Everything else follows the
  language: arithmetic propagates NaN, \<open>Infinity - Infinity\<close>, \<open>0 * Infinity\<close>,
  \<open>0 / 0\<close> and \<open>Infinity / Infinity\<close> are NaN, a nonzero finite value divided by
  zero is an infinity, and every comparison with NaN is false. No property below turns on how
  a product or a sum is rounded: what would (the strict growth of the drag resistance, the
  number of steps a decaying velocity takes to fall below a threshold) is not stated.
\<close>

datatype jsnum = Fin real | PosInf | NegInf | NaN

instantiation jsnum :: "{plus, minus, times, inverse, abs, ord}"
begin

fun plus_jsnum :: "jsnum \<Rightarrow> jsnum \<Rightarrow> jsnum" where
  "plus_jsnum NaN b = NaN"
| "plus_jsnum a NaN = NaN"
| "plus_jsnum (Fin a) (Fin b) = Fin (a + b)"
| "plus_jsnum PosInf NegInf = NaN"
| "plus_jsnum NegInf PosInf = NaN"
| "plus_jsnum PosInf b = PosInf"
| "plus_jsnum NegInf b = NegInf"
| "plus_jsnum (Fin a) b = b"

fun minus_jsnum :: "jsnum \<Rightarrow> jsnum \<Rightarrow> jsnum" where
  "minus_jsnum NaN b = NaN"
| "minus_jsnum a NaN = NaN"
| "minus_jsnum (Fin a) (Fin b) = Fin (a - b)"
| "minus_jsnum PosInf PosInf = NaN"
| "minus_jsnum NegInf NegInf = NaN"
| "minus_jsnum PosInf b = PosInf"
| "minus_jsnum NegInf b = NegInf"
| "minus_jsnum (Fin a) PosInf = NegInf"
| "minus_jsnum (Fin a) NegInf = PosInf"

fun times_jsnum :: "jsnum \<Rightarrow> jsnum \<Rightarrow> jsnum" where
  "times_jsnum NaN b = NaN"
| "times_jsnum a NaN = NaN"
| "times_jsnum (Fin a) (Fin b) = Fin (a * b)"
| "times_jsnum (Fin a) PosInf = (if a = 0 then NaN else if 0 < a then PosInf else NegInf)"
| "times_jsnum (Fin a) NegInf = (if a = 0 then NaN else if 0 < a then NegInf else PosInf)"
| "times_jsnum PosInf (Fin b) = (if b = 0 then NaN else if 0 < b then PosInf else NegInf)"
| "times_jsnum NegInf (Fin b) = (if b = 0 then NaN else if 0 < b then NegInf else PosInf)"
| "times_jsnum PosInf PosInf = PosInf"
| "times_jsnum PosInf NegInf = NegInf"
| "times_jsnum NegInf PosInf = NegInf"
| "times_jsnum NegInf NegInf = PosInf"

fun divide_jsnum :: "jsnum \<Rightarrow> jsnum \<Rightarrow> jsnum" where
  "divide_jsnum NaN b = NaN"
| "divide_jsnum a NaN = NaN"
| "divide_jsnum (Fin a) (Fin b) =
     (if b = 0 then (if a = 0 then NaN else if 0 < a then PosInf else NegInf)
      else Fin (a / b))"
| "divide_jsnum (Fin a) b = Fin 0"
| "divide_jsnum PosInf (Fin b) = (if b < 0 then NegInf else PosInf)"
| "divide_jsnum NegInf (Fin b) = (if b < 0 then PosInf else NegInf)"
| "divide_jsnum a b = NaN"

definition inverse_jsnum :: "jsnum \<Rightarrow> jsnum" where
  "inverse_jsnum a = divide (Fin 1) a"

fun abs_jsnum :: "jsnum \<Rightarrow> jsnum" where
  "abs_jsnum (Fin a) = Fin \<bar>a\<bar>"
| "abs_jsnum NaN = NaN"
| "abs_jsnum a = PosInf"

fun less_jsnum :: "jsnum \<Rightarrow> jsnum \<Rightarrow> bool" where
  "less_jsnum NaN b = False"
| "less_jsnum a NaN = False"
| "less_jsnum (Fin a) (Fin b) = (a < b)"
| "less_jsnum a NegInf = False"
| "less_jsnum PosInf b = False"
| "less_jsnum a b = True"

definition less_eq_jsnum :: "jsnum \<Rightarrow> jsnum \<Rightarrow> bool" where
  "less_eq_jsnum a b = (a \<noteq> NaN \<and> b \<noteq> NaN \<and> \<not> b < a)"

instance ..

end

text \<open>\<open>a === b\<close> on numbers: NaN equals nothing, itself included.\<close>

definition js_eq :: "jsnum \<Rightarrow> jsnum \<Rightarrow> bool" where
  "js_eq a b = (a \<noteq> NaN \<and> b \<noteq> NaN \<and> a = b)"

text \<open>A number is falsy when it is zero or NaN; \<open>a || b\<close> is \<open>a\<close> unless \<open>a\<close> is falsy.\<close>

definition js_truthy :: "jsnum \<Rightarrow> bool" where
  "js_truthy a = (a \<noteq> NaN \<and> a \<noteq> Fin 0)"

definition js_or :: "jsnum \<Rightarrow> jsnum \<Rightarrow> jsnum" where
  "js_or a b = (if js_truthy a then a else b)"

text \<open>
  A field that starts as \<open>null\<close> is a \<open>jsnum option\<close>; arithmetic and comparisons convert
  \<open>null\<close> to \<open>+0\<close>. A property that may be missing (\<open>undefined\<close>) converts to NaN.
\<close>

definition null_number :: "jsnum option \<Rightarrow> jsnum" where
  "null_number v = (case v of None \<Rightarrow> Fin 0 | Some n \<Rightarrow> n)"

definition undefined_number :: "jsnum option \<Rightarrow> jsnum" where
  "undefined_number v = (case v of None \<Rightarrow> NaN | Some n \<Rightarrow> n)"

section \<open>The engine's state\<close>

text \<open>
  One record holds the instance: the two frame slots (\<open>this.stepDecelRaf\<close>,
  \<open>this.tickRaf\<close>), \<open>this.sourceEl\<close> (only whether it is set), the fields of
  \<open>this.options\<close>, and the part of the browser the engine talks to: the frames requested
  and not yet run or cancelled, the next frame handle, which listeners are registered, and the
  calls made to the user's callbacks, in order.
\<close>

record tracking_point =
  pt_x :: "jsnum option"
  pt_y :: "jsnum option"
  pt_time :: jsnum

datatype frame_callback = StepDecelAnim | UpdateAndRender

datatype call = UpdateCall jsnum jsnum | OnDownCall | OnUpCall

datatype error = SourceNotFound | UpdateNotDefined | TypeError

record impetus =
  stepDecelRaf :: "nat option"
  tickRaf :: "nat option"
  sourceEl :: bool
  bounce :: bool
  friction :: jsnum
  multiplier :: jsnum
  onDown_hook :: bool
  onUp_hook :: bool
  stopThreshold :: jsnum
  targetX :: jsnum
  targetY :: jsnum
  paused :: bool
  ticking :: bool
  decelerating :: bool
  pointerActive :: bool
  trackingPoints :: "tracking_point list"
  pointerCurrentX :: "jsnum option"
  pointerCurrentY :: "jsnum option"
  pointerLastX :: "jsnum option"
  pointerLastY :: "jsnum option"
  boundXmin :: "jsnum option"
  boundXmax :: "jsnum option"
  boundYmin :: "jsnum option"
  boundYmax :: "jsnum option"
  pointerId :: "int option"
  decVelX :: "jsnum option"
  decVelY :: "jsnum option"
  frames :: "(nat \<times> frame_callback) list"
  nextHandle :: nat
  sourceListeners :: bool
  wheelListener :: bool
  documentListeners :: bool
  calls :: "call list"

text \<open>A raw mouse or touch event, and what \<open>normalizeEvent\<close> makes of it.\<close>

record dom_event =
  is_touch :: bool
  clientX :: jsnum
  clientY :: jsnum
  touch_identifier :: int
  deltaX :: "jsnum option"
  deltaY :: "jsnum option"

record normalized_event =
  ev_x :: jsnum
  ev_y :: jsnum
  ev_id :: "int option"

definition STOP_THRESHOLD_DEFAULT :: jsnum where
  "STOP_THRESHOLD_DEFAULT = Fin 0.3"

definition BOUNCE_DECELERATION :: jsnum where
  "BOUNCE_DECELERATION = Fin 0.04"

definition BOUNCE_ACCELERATION :: jsnum where
  "BOUNCE_ACCELERATION = Fin 0.11"

definition normalizeEvent :: "dom_event \<Rightarrow> normalized_event" where
  "normalizeEvent ev =
     (if is_touch ev
      then \<lparr>ev_x = clientX ev, ev_y = clientY ev, ev_id = Some (touch_identifier ev)\<rparr>
      else \<lparr>ev_x = clientX ev, ev_y = clientY ev, ev_id = None\<rparr>)"

text \<open>
  \<open>dragOutOfBoundsMultiplier\<close>, with the polynomial evaluated exactly (in binary64 small
  terms are absorbed by the constant 0.55); \<open>val ** 2\<close> is \<open>val * val\<close>.
\<close>

definition dragOutOfBoundsMultiplier :: "jsnum \<Rightarrow> jsnum" where
  "dragOutOfBoundsMultiplier val =
     (Fin 0.000005 * (val * val)) + (Fin 0.0001 * val) + Fin 0.55"

subsection \<open>Frames and callbacks\<close>

text \<open>
  \<open>requestAnimationFrame\<close> queues the callback and returns a fresh nonzero handle;
  \<open>cancelAnimationFrame\<close> drops the frame with that handle, if it is still queued.
\<close>

definition requestAnimationFrame :: "frame_callback \<Rightarrow> impetus \<Rightarrow> nat \<times> impetus" where
  "requestAnimationFrame cb s =
     (nextHandle s,
      s\<lparr>frames := frames s @ [(nextHandle s, cb)], nextHandle := Suc (nextHandle s)\<rparr>)"

definition cancelAnimationFrame :: "nat \<Rightarrow> impetus \<Rightarrow> impetus" where
  "cancelAnimationFrame h s = s\<lparr>frames := filter (\<lambda>f. fst f \<noteq> h) (frames s)\<rparr>"

definition callUpdateCallback :: "impetus \<Rightarrow> impetus" where
  "callUpdateCallback s = s\<lparr>calls := calls s @ [UpdateCall (targetX s) (targetY s)]\<rparr>"

section \<open>The engine\<close>

subsection \<open>Bounds\<close>

record bounds_diff =
  diff_x :: jsnum
  diff_y :: jsnum
  inBounds :: bool

text \<open>
  \<open>checkBounds(restrict)\<close>. A bound is set when it is neither \<open>null\<close> nor
  \<open>undefined\<close>. Where the source assigns a bound to the target (here and in the clamp of
  \<open>stepDecelAnim\<close>), the model stores the bound's number; the bound assigned is always a
  set one, as the properties of the bounds evaluation show.
\<close>

definition checkBounds :: "bool \<Rightarrow> impetus \<Rightarrow> bounds_diff \<times> impetus" where
  "checkBounds restrict s =
     (let xDiff =
            (if boundXmin s \<noteq> None \<and> targetX s < null_number (boundXmin s)
             then null_number (boundXmin s) - targetX s
             else if boundXmax s \<noteq> None \<and> null_number (boundXmax s) < targetX s
             then null_number (boundXmax s) - targetX s
             else Fin 0);
          yDiff =
            (if boundYmin s \<noteq> None \<and> targetY s < null_number (boundYmin s)
             then null_number (boundYmin s) - targetY s
             else if boundYmax s \<noteq> None \<and> null_number (boundYmax s) < targetY s
             then null_number (boundYmax s) - targetY s
             else Fin 0);
          sx = (if restrict \<and> \<not> js_eq xDiff (Fin 0)
                then s\<lparr>targetX := (if Fin 0 < xDiff then null_number (boundXmin s)
                                    else null_number (boundXmax s))\<rparr>
                else s);
          sy = (if restrict \<and> \<not> js_eq yDiff (Fin 0)
                then sx\<lparr>targetY := (if Fin 0 < yDiff then null_number (boundYmin s)
                                     else null_number (boundYmax s))\<rparr>
                else sx)
      in (\<lparr>diff_x = xDiff, diff_y = yDiff,
           inBounds = (js_eq xDiff (Fin 0) \<and> js_eq yDiff (Fin 0))\<rparr>, sy))"

subsection \<open>Tracking points\<close>

text \<open>
  \<open>addTrackingPoint(x, y)\<close>: the loop shifts points off the front while the first one is
  older than 100 ms, then the new point is pushed. \<open>Date.now()\<close> is the argument \<open>now\<close>.
\<close>

fun dropExpired :: "jsnum \<Rightarrow> tracking_point list \<Rightarrow> tracking_point list" where
  "dropExpired time [] = []"
| "dropExpired time (p # ps) =
     (if time - pt_time p \<le> Fin 100 then p # ps else dropExpired time ps)"

definition addTrackingPoint :: "int \<Rightarrow> jsnum option \<Rightarrow> jsnum option \<Rightarrow> impetus \<Rightarrow> impetus" where
  "addTrackingPoint now x y s =
     (let time = Fin (of_int now)
      in s\<lparr>trackingPoints :=
             dropExpired time (trackingPoints s) @ [\<lparr>pt_x = x, pt_y = y, pt_time = time\<rparr>]\<rparr>)"

subsection \<open>Deceleration\<close>

text \<open>
  \<open>startDecelAnim\<close>. Reading \<open>lastPoint.x\<close> of an empty list throws a TypeError.
\<close>

definition startDecelAnim :: "impetus \<Rightarrow> error + impetus" where
  "startDecelAnim s =
     (case trackingPoints s of
        [] \<Rightarrow> Inl TypeError
      | firstPoint # _ \<Rightarrow>
          (let lastPoint = last (trackingPoints s);
               xOffset = null_number (pt_x lastPoint) - null_number (pt_x firstPoint);
               yOffset = null_number (pt_y lastPoint) - null_number (pt_y firstPoint);
               timeOffset = pt_time lastPoint - pt_time firstPoint;
               D = (timeOffset / Fin 15) / multiplier s;
               s1 = s\<lparr>decVelX := Some (js_or (xOffset / D) (Fin 0)),
                      decVelY := Some (js_or (yOffset / D) (Fin 0))\<rparr>;
               (diff, s2) = checkBounds False s1
           in if Fin 1 < \<bar>null_number (decVelX s2)\<bar> \<or>
                 Fin 1 < \<bar>null_number (decVelY s2)\<bar> \<or>
                 \<not> inBounds diff
              then (let (h, s3) = requestAnimationFrame StepDecelAnim (s2\<lparr>decelerating := True\<rparr>)
                    in Inr (s3\<lparr>stepDecelRaf := Some h\<rparr>))
              else Inr s2))"

text \<open>The \<open>if (bounce) { ... }\<close> block of \<open>stepDecelAnim\<close>, and its \<open>else\<close> block.\<close>

definition bounceAdjust :: "bounds_diff \<Rightarrow> impetus \<Rightarrow> impetus" where
  "bounceAdjust diff s =
     (let reboundAdjust = Fin 2.5;
          sx = (if \<not> js_eq (diff_x diff) (Fin 0)
                then (if diff_x diff * null_number (decVelX s) \<le> Fin 0
                      then s\<lparr>decVelX := Some (null_number (decVelX s) + diff_x diff * BOUNCE_DECELERATION)\<rparr>
                      else (let adjust = (if Fin 0 < diff_x diff then reboundAdjust else Fin (- 2.5))
                            in s\<lparr>decVelX := Some ((diff_x diff + adjust) * BOUNCE_ACCELERATION)\<rparr>))
                else s)
      in (if \<not> js_eq (diff_y diff) (Fin 0)
          then (if diff_y diff * null_number (decVelY sx) \<le> Fin 0
                then sx\<lparr>decVelY := Some (null_number (decVelY sx) + diff_y diff * BOUNCE_DECELERATION)\<rparr>
                else (let adjust = (if Fin 0 < diff_y diff then reboundAdjust else Fin (- 2.5))
                      in sx\<lparr>decVelY := Some ((diff_y diff + adjust) * BOUNCE_ACCELERATION)\<rparr>))
          else sx))"

definition clampAdjust :: "bounds_diff \<Rightarrow> impetus \<Rightarrow> impetus" where
  "clampAdjust diff s =
     (let sx = (if \<not> js_eq (diff_x diff) (Fin 0)
                then (if Fin 0 < diff_x diff
                      then s\<lparr>targetX := null_number (boundXmin s)\<rparr>
                      else s\<lparr>targetX := null_number (boundXmax s)\<rparr>)\<lparr>decVelX := Some (Fin 0)\<rparr>
                else s)
      in (if \<not> js_eq (diff_y diff) (Fin 0)
          then (if Fin 0 < diff_y diff
                then sx\<lparr>targetY := null_number (boundYmin sx)\<rparr>
                else sx\<lparr>targetY := null_number (boundYmax sx)\<rparr>)\<lparr>decVelY := Some (Fin 0)\<rparr>
          else sx))"

text \<open>
  \<open>stepDecelAnim\<close>. \<open>decelIntegrate\<close> is its first part, up to the call of
  \<open>checkBounds\<close>: the velocities times the friction, then the targets plus the velocities.
\<close>

definition decelIntegrate :: "impetus \<Rightarrow> impetus" where
  "decelIntegrate s =
     (let s1 = s\<lparr>decVelX := Some (null_number (decVelX s) * friction s)\<rparr>;
          s2 = s1\<lparr>decVelY := Some (null_number (decVelY s1) * friction s)\<rparr>;
          s3 = s2\<lparr>targetX := targetX s2 + null_number (decVelX s2)\<rparr>
      in s3\<lparr>targetY := targetY s3 + null_number (decVelY s3)\<rparr>)"

definition stepDecelAnim :: "impetus \<Rightarrow> impetus" where
  "stepDecelAnim s =
     (let s0 = s\<lparr>stepDecelRaf := None\<rparr>
      in if \<not> decelerating s0 then s0
         else (let (diff, s1) = checkBounds False (decelIntegrate s0)
               in if \<bar>null_number (decVelX s1)\<bar> \<le> stopThreshold s0 \<and>
                     \<bar>null_number (decVelY s1)\<bar> \<le> stopThreshold s0 \<and>
                     inBounds diff
                  then s1\<lparr>decelerating := False\<rparr>
                  else (let s2 = (if bounce s0 then bounceAdjust diff s1 else clampAdjust diff s1);
                            s3 = callUpdateCallback s2;
                            (h, s4) = requestAnimationFrame StepDecelAnim s3
                        in s4\<lparr>stepDecelRaf := Some h\<rparr>)))"

subsection \<open>Dragging\<close>

definition requestTick :: "impetus \<Rightarrow> impetus" where
  "requestTick s =
     (let s1 = (if \<not> ticking s
                then (let (h, s') = requestAnimationFrame UpdateAndRender s
                      in s'\<lparr>tickRaf := Some h\<rparr>)
                else s)
      in s1\<lparr>ticking := True\<rparr>)"

definition updateAndRender :: "impetus \<Rightarrow> impetus" where
  "updateAndRender s =
     (let s0 = s\<lparr>tickRaf := None\<rparr>;
          pointerChangeX = null_number (pointerCurrentX s0) - null_number (pointerLastX s0);
          pointerChangeY = null_number (pointerCurrentY s0) - null_number (pointerLastY s0);
          s1 = s0\<lparr>targetX := targetX s0 + pointerChangeX * multiplier s0\<rparr>;
          s2 = s1\<lparr>targetY := targetY s1 + pointerChangeY * multiplier s0\<rparr>;
          s3 = (if bounce s0
                then (let (diff, t) = checkBounds False s2;
                          tx = (if \<not> js_eq (diff_x diff) (Fin 0)
                                then t\<lparr>targetX := targetX t -
                                       pointerChangeX * dragOutOfBoundsMultiplier (diff_x diff) *
                                       multiplier s0\<rparr>
                                else t)
                      in (if \<not> js_eq (diff_y diff) (Fin 0)
                          then tx\<lparr>targetY := targetY tx -
                                 pointerChangeY * dragOutOfBoundsMultiplier (diff_y diff) *
                                 multiplier s0\<rparr>
                          else tx))
                else snd (checkBounds True s2));
          s4 = callUpdateCallback s3
      in s4\<lparr>pointerLastX := pointerCurrentX s0, pointerLastY := pointerCurrentY s0,
            ticking := False\<rparr>)"

text \<open>
  \<open>onWheel\<close>. The wheel event's \<open>deltaX\<close> and \<open>deltaY\<close> are read from the raw event.
\<close>

definition onWheel :: "dom_event \<Rightarrow> impetus \<Rightarrow> impetus" where
  "onWheel ev s =
     (let s1 = s\<lparr>targetX := targetX s - undefined_number (deltaX ev) / Fin 3\<rparr>;
          s2 = s1\<lparr>targetY := targetY s1 - undefined_number (deltaY ev) / Fin 3\<rparr>;
          s3 = callUpdateCallback (s2\<lparr>decelerating := True\<rparr>)
      in s3\<lparr>decelerating := False\<rparr>)"

text \<open>
  \<open>onMove\<close>. When the raw event carries a \<open>deltaX\<close>, the source adds
  \<open>event.deltaX\<close> of the normalized event, which has no such property.
\<close>

definition onMove :: "int \<Rightarrow> dom_event \<Rightarrow> impetus \<Rightarrow> impetus" where
  "onMove now ev s =
     (let event = normalizeEvent ev
      in if pointerActive s \<and> ev_id event = pointerId s
         then (let s1 = (if deltaX ev \<noteq> None
                         then s\<lparr>pointerCurrentX := Some (ev_x event + undefined_number None),
                                pointerCurrentY := Some (ev_y event + undefined_number None)\<rparr>
                         else s\<lparr>pointerCurrentX := Some (ev_x event),
                                pointerCurrentY := Some (ev_y event)\<rparr>);
                    s2 = addTrackingPoint now (pointerLastX s1) (pointerLastY s1) s1
                in requestTick s2)
         else s)"

definition onDown :: "int \<Rightarrow> dom_event \<Rightarrow> impetus \<Rightarrow> impetus" where
  "onDown now ev s =
     (let event = normalizeEvent ev
      in if \<not> pointerActive s \<and> \<not> paused s
         then (let s1 = (if onDown_hook s then s\<lparr>calls := calls s @ [OnDownCall]\<rparr> else s);
                    s2 = s1\<lparr>pointerActive := True, decelerating := False,
                            pointerId := ev_id event,
                            pointerCurrentX := Some (ev_x event),
                            pointerCurrentY := Some (ev_y event),
                            pointerLastX := Some (ev_x event),
                            pointerLastY := Some (ev_y event),
                            trackingPoints := []\<rparr>;
                    s3 = addTrackingPoint now (pointerLastX s2) (pointerLastY s2) s2
                in s3\<lparr>documentListeners := True\<rparr>)
         else s)"

definition removeEventListeners :: "impetus \<Rightarrow> impetus" where
  "removeEventListeners s = s\<lparr>documentListeners := False\<rparr>"

definition stopTracking :: "int \<Rightarrow> impetus \<Rightarrow> error + impetus" where
  "stopTracking now s =
     (let s1 = s\<lparr>pointerActive := False\<rparr>;
          s2 = addTrackingPoint now (pointerLastX s1) (pointerLastY s1) s1
      in case startDecelAnim s2 of
           Inl e \<Rightarrow> Inl e
         | Inr s3 \<Rightarrow> Inr (removeEventListeners s3))"

definition onUp :: "int \<Rightarrow> dom_event \<Rightarrow> impetus \<Rightarrow> error + impetus" where
  "onUp now ev s =
     (let event = normalizeEvent ev
      in if pointerActive s \<and> ev_id event = pointerId s
         then stopTracking now (if onUp_hook s then s\<lparr>calls := calls s @ [OnUpCall]\<rparr> else s)
         else Inr s)"

subsection \<open>The public methods\<close>

text \<open>
  \<open>destroy\<close> removes the wheel listener and the two listeners of the source element and
  sets \<open>sourceEl\<close> to \<open>null\<close>; on an instance already destroyed, reading
  \<open>this.sourceEl.removeEventListener\<close> throws.
\<close>

definition destroy :: "impetus \<Rightarrow> error + impetus" where
  "destroy s =
     (if \<not> sourceEl s then Inl TypeError
      else Inr (s\<lparr>wheelListener := False, sourceListeners := False, sourceEl := False\<rparr>))"

definition pause :: "impetus \<Rightarrow> impetus" where
  "pause s = s\<lparr>pointerActive := False, paused := True\<rparr>"

definition resume :: "impetus \<Rightarrow> impetus" where
  "resume s = s\<lparr>paused := False\<rparr>"

text \<open>\<open>setValue(x, y)\<close>: an argument that is not of type number is \<open>None\<close>.\<close>

definition setValue :: "jsnum option \<Rightarrow> jsnum option \<Rightarrow> impetus \<Rightarrow> impetus" where
  "setValue x y s =
     (let s1 = (case x of Some n \<Rightarrow> s\<lparr>targetX := n\<rparr> | None \<Rightarrow> s)
      in (case y of Some n \<Rightarrow> s1\<lparr>targetY := n\<rparr> | None \<Rightarrow> s1))"

definition setMultiplier :: "jsnum \<Rightarrow> impetus \<Rightarrow> impetus" where
  "setMultiplier val s =
     (let s1 = s\<lparr>multiplier := val\<rparr>
      in s1\<lparr>stopThreshold := STOP_THRESHOLD_DEFAULT * multiplier s1\<rparr>)"

definition setBoundX :: "jsnum option \<times> jsnum option \<Rightarrow> impetus \<Rightarrow> impetus" where
  "setBoundX b s = s\<lparr>boundXmin := fst b, boundXmax := snd b\<rparr>"

definition setBoundY :: "jsnum option \<times> jsnum option \<Rightarrow> impetus \<Rightarrow> impetus" where
  "setBoundY b s = s\<lparr>boundYmin := fst b, boundYmax := snd b\<rparr>"

text \<open>\<open>cancel\<close>: a slot is unscheduled when it holds a truthy (nonzero) handle.\<close>

definition cancel :: "impetus \<Rightarrow> impetus" where
  "cancel s =
     (let s1 = s\<lparr>decelerating := False, pointerActive := False, ticking := False,
                 decVelX := Some (Fin 0), decVelY := Some (Fin 0)\<rparr>;
          s2 = removeEventListeners s1;
          s3 = (case stepDecelRaf s2 of
                  Some h \<Rightarrow> if h \<noteq> 0 then (cancelAnimationFrame h s2)\<lparr>stepDecelRaf := None\<rparr> else s2
                | None \<Rightarrow> s2)
      in (case tickRaf s3 of
            Some h \<Rightarrow> if h \<noteq> 0 then (cancelAnimationFrame h s3)\<lparr>tickRaf := None\<rparr> else s3
          | None \<Rightarrow> s3))"

subsection \<open>Construction\<close>

text \<open>
  The constructor's argument: whether the source element resolves, whether an update callback
  is given, and the options (\<open>None\<close> where the property is left out).
\<close>

record config =
  cfg_source :: bool
  cfg_update :: bool
  cfg_multiplier :: "jsnum option"
  cfg_friction :: "jsnum option"
  cfg_bounce :: "bool option"
  cfg_boundX :: "(jsnum option \<times> jsnum option) option"
  cfg_boundY :: "(jsnum option \<times> jsnum option) option"
  cfg_initialValues :: "(jsnum option \<times> jsnum option) option"
  cfg_onDown :: bool
  cfg_onUp :: bool

definition initialState :: "config \<Rightarrow> impetus" where
  "initialState cfg =
     (let multiplier = (case cfg_multiplier cfg of None \<Rightarrow> Fin 1 | Some m \<Rightarrow> m)
      in \<lparr>stepDecelRaf = None, tickRaf = None, sourceEl = cfg_source cfg,
          bounce = (case cfg_bounce cfg of None \<Rightarrow> True | Some b \<Rightarrow> b),
          friction = (case cfg_friction cfg of None \<Rightarrow> Fin 0.92 | Some f \<Rightarrow> f),
          multiplier = multiplier,
          onDown_hook = cfg_onDown cfg, onUp_hook = cfg_onUp cfg,
          stopThreshold = STOP_THRESHOLD_DEFAULT * multiplier,
          targetX = Fin 0, targetY = Fin 0,
          paused = False, ticking = False, decelerating = False, pointerActive = False,
          trackingPoints = [],
          pointerCurrentX = None, pointerCurrentY = None,
          pointerLastX = None, pointerLastY = None,
          boundXmin = None, boundXmax = None, boundYmin = None, boundYmax = None,
          pointerId = None, decVelX = None, decVelY = None,
          frames = [], nextHandle = 1,
          sourceListeners = False, wheelListener = False, documentListeners = False,
          calls = []\<rparr>)"

definition constructor :: "config \<Rightarrow> error + impetus" where
  "constructor cfg =
     (let s0 = initialState cfg
      in if \<not> sourceEl s0 then Inl SourceNotFound
         else if \<not> cfg_update cfg then Inl UpdateNotDefined
         else (let s1 = (case cfg_initialValues cfg of
                           None \<Rightarrow> s0
                         | Some (ix, iy) \<Rightarrow>
                             (let tx = (if js_truthy (undefined_number ix)
                                        then s0\<lparr>targetX := undefined_number ix\<rparr> else s0);
                                  ty = (if js_truthy (undefined_number iy)
                                        then tx\<lparr>targetY := undefined_number iy\<rparr> else tx)
                              in callUpdateCallback ty));
                    s2 = (case cfg_boundX cfg of
                            None \<Rightarrow> s1
                          | Some b \<Rightarrow> s1\<lparr>boundXmin := fst b, boundXmax := snd b\<rparr>);
                    s3 = (case cfg_boundY cfg of
                            None \<Rightarrow> s2
                          | Some b \<Rightarrow> s2\<lparr>boundYmin := fst b, boundYmax := snd b\<rparr>)
                in Inr (s3\<lparr>sourceListeners := True, wheelListener := True\<rparr>)))"

subsection \<open>What can happen to an instance\<close>

text \<open>
  The browser runs a queued frame: it leaves the queue and its callback is called. Every
  other event calls the handler or method of its name.
\<close>

datatype event =
    Down int dom_event
  | Move int dom_event
  | Up int dom_event
  | TouchCancel int
  | Wheel dom_event
  | Frame nat
  | Pause
  | Resume
  | SetValue "jsnum option" "jsnum option"
  | SetMultiplier jsnum
  | SetBoundX "jsnum option" "jsnum option"
  | SetBoundY "jsnum option" "jsnum option"
  | Cancel
  | Destroy

definition runFrame :: "nat \<Rightarrow> impetus \<Rightarrow> impetus" where
  "runFrame h s =
     (case find (\<lambda>f. fst f = h) (frames s) of
        None \<Rightarrow> s
      | Some f \<Rightarrow>
          (let s1 = s\<lparr>frames := filter (\<lambda>g. fst g \<noteq> h) (frames s)\<rparr>
           in case snd f of
                StepDecelAnim \<Rightarrow> stepDecelAnim s1
              | UpdateAndRender \<Rightarrow> updateAndRender s1))"

fun perform :: "event \<Rightarrow> impetus \<Rightarrow> error + impetus" where
  "perform (Down now ev) s = Inr (onDown now ev s)"
| "perform (Move now ev) s = Inr (onMove now ev s)"
| "perform (Up now ev) s = onUp now ev s"
| "perform (TouchCancel now) s = stopTracking now s"
| "perform (Wheel ev) s = Inr (onWheel ev s)"
| "perform (Frame h) s = Inr (runFrame h s)"
| "perform Pause s = Inr (pause s)"
| "perform Resume s = Inr (resume s)"
| "perform (SetValue x y) s = Inr (setValue x y s)"
| "perform (SetMultiplier v) s = Inr (setMultiplier v s)"
| "perform (SetBoundX mn mx) s = Inr (setBoundX (mn, mx) s)"
| "perform (SetBoundY mn mx) s = Inr (setBoundY (mn, mx) s)"
| "perform Cancel s = Inr (cancel s)"
| "perform Destroy s = destroy s"

fun run :: "event list \<Rightarrow> impetus \<Rightarrow> error + impetus" where
  "run [] s = Inr s"
| "run (e # es) s = (case perform e s of Inl err \<Rightarrow> Inl err | Inr s' \<Rightarrow> run es s')"

section \<open>Auxiliary definitions\<close>

text \<open>
  The overflow of one axis as the specification words it: \<open>min - target\<close> if \<open>min\<close> is set
  and \<open>target < min\<close>, else \<open>max - target\<close> if \<open>max\<close> is set and \<open>target > max\<close>,
  else 0. It is compared with what \<open>checkBounds\<close> computes.
\<close>

definition spec_overflow :: "jsnum option \<Rightarrow> jsnum option \<Rightarrow> jsnum \<Rightarrow> jsnum" where
  "spec_overflow mn mx t =
     (case mn of
        Some m \<Rightarrow> if t < m then m - t
                  else (case mx of Some M \<Rightarrow> if M < t then M - t else Fin 0 | None \<Rightarrow> Fin 0)
      | None \<Rightarrow> (case mx of Some M \<Rightarrow> if M < t then M - t else Fin 0 | None \<Rightarrow> Fin 0))"

text \<open>
  The \<open>diff\<close> a deceleration step computes from a state, and the condition under which the
  step stops: both read off \<open>stepDecelAnim\<close>.
\<close>

definition decelDiff :: "impetus \<Rightarrow> bounds_diff" where
  "decelDiff s = fst (checkBounds False
      (s\<lparr>targetX := targetX s + null_number (decVelX s) * friction s,
         targetY := targetY s + null_number (decVelY s) * friction s\<rparr>))"

definition decelStops :: "impetus \<Rightarrow> bool" where
  "decelStops s \<longleftrightarrow>
     \<bar>null_number (decVelX s) * friction s\<bar> \<le> stopThreshold s \<and>
     \<bar>null_number (decVelY s) * friction s\<bar> \<le> stopThreshold s \<and>
     inBounds (decelDiff s)"

text \<open>
  The deceleration as a loop: while the engine is decelerating, the next frame runs
  \<open>stepDecelAnim\<close>. The first argument bounds the number of frames; \<open>None\<close> means the
  engine is still decelerating after that many.
\<close>

fun decelLoop :: "nat \<Rightarrow> impetus \<Rightarrow> impetus option" where
  "decelLoop 0 s = None"
| "decelLoop (Suc n) s = (if decelerating s then decelLoop n (stepDecelAnim s) else Some s)"

subsection \<open>Example instances\<close>

text \<open>
  \<open>ready\<close> is the instance the constructor returns for the default options;
  \<open>coasting\<close> decelerates freely with velocity 10 on the x axis; \<open>overshoot\<close> is
  20 beyond the upper bound of \<open>[0, 100]\<close> and still moving outwards; \<open>clamping\<close>
  has bounce disabled and the x axis bounded by \<open>[0, 100]\<close>.
\<close>

definition defaultConfig :: config where
  "defaultConfig =
     \<lparr>cfg_source = True, cfg_update = True, cfg_multiplier = None, cfg_friction = None,
      cfg_bounce = None, cfg_boundX = None, cfg_boundY = None, cfg_initialValues = None,
      cfg_onDown = False, cfg_onUp = False\<rparr>"

definition ready :: impetus where
  "ready = (initialState defaultConfig)\<lparr>sourceListeners := True, wheelListener := True\<rparr>"

definition coasting :: impetus where
  "coasting = ready\<lparr>decelerating := True, decVelX := Some (Fin 10), decVelY := Some (Fin 0)\<rparr>"

definition overshoot :: impetus where
  "overshoot =
     ready\<lparr>boundXmin := Some (Fin 0), boundXmax := Some (Fin 100), targetX := Fin 120,
           decelerating := True, decVelX := Some (Fin 5), decVelY := Some (Fin 0)\<rparr>"

definition clamping :: impetus where
  "clamping = ready\<lparr>bounce := False, boundXmin := Some (Fin 0), boundXmax := Some (Fin 100)\<rparr>"

text \<open>
  A mouse event at a position, and a drag: down at \<open>(0, 0)\<close> at time 0, a move to
  \<open>(10, 0)\<close> at time 50, the frame of the drag update, and the release at time 50.
\<close>

definition mouseAt :: "real \<Rightarrow> real \<Rightarrow> dom_event" where
  "mouseAt x y = \<lparr>is_touch = False, clientX = Fin x, clientY = Fin y, touch_identifier = 0,
     deltaX = None, deltaY = None\<rparr>"

definition dragAndRelease :: "event list" where
  "dragAndRelease = [Down 0 (mouseAt 0 0), Move 50 (mouseAt 10 0), Frame 1, Up 50 (mouseAt 10 0)]"

text \<open>
  \<open>reversed\<close> is \<open>coasting\<close> after \<open>setMultiplier(-1)\<close>. \<open>sameMillisecond\<close> is the drag
  above with every event in the same millisecond. \<open>tapTwiceAndCancel\<close> sets the target
  beyond the bounds, then taps twice (as a touch followed by its synthetic mouse events does)
  and calls \<open>cancel\<close>, with no frame run in between.
\<close>

definition reversed :: impetus where
  "reversed = setMultiplier (Fin (- 1)) coasting"

definition sameMillisecond :: "event list" where
  "sameMillisecond =
     [Down 1000 (mouseAt 0 0), Move 1000 (mouseAt 10 0), Frame 1, Up 1000 (mouseAt 10 0)]"

definition tapTwiceAndCancel :: "event list" where
  "tapTwiceAndCancel =
     [SetBoundX (Some (Fin 0)) (Some (Fin 100)), SetValue (Some (Fin 120)) None,
      Down 0 (mouseAt 0 0), Up 0 (mouseAt 0 0), Down 5 (mouseAt 0 0), Up 5 (mouseAt 0 0), Cancel]"

section \<open>Properties\<close>

subsection \<open>Numbers\<close>

lemma js_eq_zero_iff: "js_eq a (Fin 0) \<longleftrightarrow> a = Fin 0"
  by (auto simp: js_eq_def)

lemma sub_pos: "t < m \<Longrightarrow> Fin 0 < m - t"
  by (cases t; cases m) auto

lemma sub_neg: "m < t \<Longrightarrow> m - t < Fin 0"
  by (cases t; cases m) auto

lemma neg_not_pos: "a < Fin 0 \<Longrightarrow> \<not> Fin 0 < (a::jsnum)"
  by (cases a) auto

lemma pos_ne: "Fin 0 < a \<Longrightarrow> a \<noteq> Fin 0 \<and> a \<noteq> NaN"
  by (cases a) auto

lemma neg_ne: "a < Fin 0 \<Longrightarrow> a \<noteq> Fin 0 \<and> a \<noteq> NaN"
  by (cases a) auto

lemma add_neg_const: "a + Fin (- c) = a - Fin c"
  by (cases a) auto

lemma constructor_default: "constructor defaultConfig = Inr ready"
  by (simp add: constructor_def defaultConfig_def ready_def initialState_def Let_def)

lemmas ex_defs = ready_def initialState_def defaultConfig_def STOP_THRESHOLD_DEFAULT_def

lemmas handler_defs = onDown_def onMove_def onUp_def stopTracking_def startDecelAnim_def
  stepDecelAnim_def updateAndRender_def runFrame_def requestTick_def addTrackingPoint_def
  requestAnimationFrame_def cancelAnimationFrame_def callUpdateCallback_def checkBounds_def
  removeEventListeners_def normalizeEvent_def decelIntegrate_def bounceAdjust_def clampAdjust_def
  destroy_def js_or_def js_truthy_def js_eq_def null_number_def undefined_number_def
  less_eq_jsnum_def

lemma null_number_Some: "null_number (Some n) = n"
  by (simp add: null_number_def)

subsection \<open>Bounds evaluation\<close>

lemma diff_x_eq: "diff_x (fst (checkBounds r s)) = spec_overflow (boundXmin s) (boundXmax s) (targetX s)"
  by (simp add: checkBounds_def spec_overflow_def Let_def null_number_def split: option.splits)

lemma spec_overflow_cases:
  "spec_overflow mn mx t = Fin 0 \<or>
   (Fin 0 < spec_overflow mn mx t \<and> (\<exists>m. mn = Some m)) \<or>
   (spec_overflow mn mx t < Fin 0 \<and> (\<exists>m. mx = Some m))"
  by (auto simp: spec_overflow_def sub_pos sub_neg split: option.splits)

lemma diff_y_eq: "diff_y (fst (checkBounds r s)) = spec_overflow (boundYmin s) (boundYmax s) (targetY s)"
  by (simp add: checkBounds_def spec_overflow_def Let_def null_number_def split: option.splits)

lemma inBounds_eq: "inBounds (fst (checkBounds r s)) \<longleftrightarrow>
   diff_x (fst (checkBounds r s)) = Fin 0 \<and> diff_y (fst (checkBounds r s)) = Fin 0"
  by (simp add: checkBounds_def Let_def js_eq_zero_iff)

lemma checkBounds_targetX:
  "targetX (snd (checkBounds r s)) =
     (if r \<and> diff_x (fst (checkBounds r s)) \<noteq> Fin 0
      then (if Fin 0 < diff_x (fst (checkBounds r s)) then null_number (boundXmin s)
            else null_number (boundXmax s))
      else targetX s)"
  by (simp add: checkBounds_def Let_def js_eq_zero_iff)

lemma checkBounds_targetY:
  "targetY (snd (checkBounds r s)) =
     (if r \<and> diff_y (fst (checkBounds r s)) \<noteq> Fin 0
      then (if Fin 0 < diff_y (fst (checkBounds r s)) then null_number (boundYmin s)
            else null_number (boundYmax s))
      else targetY s)"
  by (simp add: checkBounds_def Let_def js_eq_zero_iff)

lemma checkBounds_frame:
  "snd (checkBounds r s) =
     s\<lparr>targetX := targetX (snd (checkBounds r s)), targetY := targetY (snd (checkBounds r s))\<rparr>"
  by (simp add: checkBounds_def Let_def)

lemma checkBounds_False: "snd (checkBounds False s) = s"
  by (simp add: checkBounds_def Let_def)

text \<open>
  Claim C4. For every target, bounds and restrict flag, \<open>checkBounds\<close> returns on each axis
  the overflow of the specification (\<open>min - target\<close> below a set minimum, else
  \<open>max - target\<close> above a set maximum, else 0), and \<open>inBounds\<close> holds exactly when both
  overflows are 0. An overflow is 0, positive or negative (never NaN). With \<open>restrict\<close>, an
  axis with positive overflow gets its target set to the minimum, one with negative overflow to
  the maximum; otherwise the target is kept. Nothing else in the state changes.
\<close>

theorem checkBounds_evaluates_bounds:
  "diff_x (fst (checkBounds restrict s)) = spec_overflow (boundXmin s) (boundXmax s) (targetX s) \<and>
   diff_y (fst (checkBounds restrict s)) = spec_overflow (boundYmin s) (boundYmax s) (targetY s) \<and>
   (inBounds (fst (checkBounds restrict s)) \<longleftrightarrow>
      diff_x (fst (checkBounds restrict s)) = Fin 0 \<and> diff_y (fst (checkBounds restrict s)) = Fin 0) \<and>
   (restrict \<and> Fin 0 < diff_x (fst (checkBounds restrict s)) \<longrightarrow>
      boundXmin s = Some (targetX (snd (checkBounds restrict s)))) \<and>
   (restrict \<and> diff_x (fst (checkBounds restrict s)) < Fin 0 \<longrightarrow>
      boundXmax s = Some (targetX (snd (checkBounds restrict s)))) \<and>
   (\<not> restrict \<or> diff_x (fst (checkBounds restrict s)) = Fin 0 \<longrightarrow>
      targetX (snd (checkBounds restrict s)) = targetX s) \<and>
   (diff_x (fst (checkBounds restrict s)) = Fin 0 \<or> Fin 0 < diff_x (fst (checkBounds restrict s)) \<or>
      diff_x (fst (checkBounds restrict s)) < Fin 0) \<and>
   (restrict \<and> Fin 0 < diff_y (fst (checkBounds restrict s)) \<longrightarrow>
      boundYmin s = Some (targetY (snd (checkBounds restrict s)))) \<and>
   (restrict \<and> diff_y (fst (checkBounds restrict s)) < Fin 0 \<longrightarrow>
      boundYmax s = Some (targetY (snd (checkBounds restrict s)))) \<and>
   (\<not> restrict \<or> diff_y (fst (checkBounds restrict s)) = Fin 0 \<longrightarrow>
      targetY (snd (checkBounds restrict s)) = targetY s) \<and>
   (diff_y (fst (checkBounds restrict s)) = Fin 0 \<or> Fin 0 < diff_y (fst (checkBounds restrict s)) \<or>
      diff_y (fst (checkBounds restrict s)) < Fin 0) \<and>
   snd (checkBounds restrict s) =
     s\<lparr>targetX := targetX (snd (checkBounds restrict s)),
       targetY := targetY (snd (checkBounds restrict s))\<rparr>"
proof -
  let ?d = "fst (checkBounds restrict s)" and ?s = "snd (checkBounds restrict s)"
  have x: "diff_x ?d = spec_overflow (boundXmin s) (boundXmax s) (targetX s)" by (rule diff_x_eq)
  have y: "diff_y ?d = spec_overflow (boundYmin s) (boundYmax s) (targetY s)" by (rule diff_y_eq)
  have cx: "diff_x ?d = Fin 0 \<or> (Fin 0 < diff_x ?d \<and> (\<exists>m. boundXmin s = Some m)) \<or>
            (diff_x ?d < Fin 0 \<and> (\<exists>m. boundXmax s = Some m))"
    unfolding x by (rule spec_overflow_cases)
  have cy: "diff_y ?d = Fin 0 \<or> (Fin 0 < diff_y ?d \<and> (\<exists>m. boundYmin s = Some m)) \<or>
            (diff_y ?d < Fin 0 \<and> (\<exists>m. boundYmax s = Some m))"
    unfolding y by (rule spec_overflow_cases)
  have tx: "(restrict \<and> Fin 0 < diff_x ?d \<longrightarrow> boundXmin s = Some (targetX ?s)) \<and>
            (restrict \<and> diff_x ?d < Fin 0 \<longrightarrow> boundXmax s = Some (targetX ?s)) \<and>
            (\<not> restrict \<or> diff_x ?d = Fin 0 \<longrightarrow> targetX ?s = targetX s)"
    using cx by (auto simp: checkBounds_targetX null_number_def dest: neg_not_pos pos_ne neg_ne)
  have ty: "(restrict \<and> Fin 0 < diff_y ?d \<longrightarrow> boundYmin s = Some (targetY ?s)) \<and>
            (restrict \<and> diff_y ?d < Fin 0 \<longrightarrow> boundYmax s = Some (targetY ?s)) \<and>
            (\<not> restrict \<or> diff_y ?d = Fin 0 \<longrightarrow> targetY ?s = targetY s)"
    using cy by (auto simp: checkBounds_targetY null_number_def dest: neg_not_pos pos_ne neg_ne)
  have ex: "diff_x ?d = Fin 0 \<or> Fin 0 < diff_x ?d \<or> diff_x ?d < Fin 0" using cx by blast
  have ey: "diff_y ?d = Fin 0 \<or> Fin 0 < diff_y ?d \<or> diff_y ?d < Fin 0" using cy by blast
  show ?thesis
    using x y inBounds_eq[of restrict s] tx ty ex ey checkBounds_frame[of restrict s] by blast
qed

theorem checkBounds_evaluates_bounds_witness:
  "diff_x (fst (checkBounds True (ready\<lparr>boundXmin := Some (Fin 0), boundXmax := Some (Fin 100),
       targetX := Fin 150\<rparr>))) < Fin 0 \<and>
   boundXmax (ready\<lparr>boundXmin := Some (Fin 0), boundXmax := Some (Fin 100), targetX := Fin 150\<rparr>) =
     Some (targetX (snd (checkBounds True (ready\<lparr>boundXmin := Some (Fin 0),
       boundXmax := Some (Fin 100), targetX := Fin 150\<rparr>)))) \<and>
   targetX (snd (checkBounds True (ready\<lparr>boundXmin := Some (Fin 0),
       boundXmax := Some (Fin 100), targetX := Fin 150\<rparr>))) = Fin 100"
proof -
  let ?s = "ready\<lparr>boundXmin := Some (Fin 0), boundXmax := Some (Fin 100), targetX := Fin 150\<rparr>"
  have h: "diff_x (fst (checkBounds True ?s)) < Fin 0"
    by (simp add: checkBounds_def Let_def null_number_def)
  from checkBounds_evaluates_bounds[of True ?s] h
  have "boundXmax ?s = Some (targetX (snd (checkBounds True ?s)))" by blast
  with h show ?thesis by simp
qed

subsection \<open>The deceleration step\<close>

lemma checkBounds_fst_cong:
  "targetX a = targetX b \<Longrightarrow> targetY a = targetY b \<Longrightarrow>
   boundXmin a = boundXmin b \<Longrightarrow> boundXmax a = boundXmax b \<Longrightarrow>
   boundYmin a = boundYmin b \<Longrightarrow> boundYmax a = boundYmax b \<Longrightarrow>
   fst (checkBounds r a) = fst (checkBounds r' b)"
  by (simp add: checkBounds_def Let_def)

lemma decelIntegrate_fields:
  "decVelX (decelIntegrate s) = Some (null_number (decVelX s) * friction s)"
  "decVelY (decelIntegrate s) = Some (null_number (decVelY s) * friction s)"
  "targetX (decelIntegrate s) = targetX s + null_number (decVelX s) * friction s"
  "targetY (decelIntegrate s) = targetY s + null_number (decVelY s) * friction s"
  by (simp_all add: decelIntegrate_def Let_def null_number_def)

lemma decelIntegrate_eq:
  "decelIntegrate s =
     s\<lparr>decVelX := Some (null_number (decVelX s) * friction s),
       decVelY := Some (null_number (decVelY s) * friction s),
       targetX := targetX s + null_number (decVelX s) * friction s,
       targetY := targetY s + null_number (decVelY s) * friction s\<rparr>"
  by (simp add: decelIntegrate_def Let_def null_number_def)

lemma bounceAdjust_frame:
  "decelerating (bounceAdjust d s) = decelerating s"
  "frames (bounceAdjust d s) = frames s"
  "nextHandle (bounceAdjust d s) = nextHandle s"
  "calls (bounceAdjust d s) = calls s"
  "targetX (bounceAdjust d s) = targetX s"
  "targetY (bounceAdjust d s) = targetY s"
  by (simp_all add: bounceAdjust_def Let_def)

lemma clampAdjust_frame:
  "decelerating (clampAdjust d s) = decelerating s"
  "frames (clampAdjust d s) = frames s"
  "nextHandle (clampAdjust d s) = nextHandle s"
  "calls (clampAdjust d s) = calls s"
  by (simp_all add: clampAdjust_def Let_def)

lemma decelDiff_alt: "fst (checkBounds False (decelIntegrate (s\<lparr>stepDecelRaf := None\<rparr>))) = decelDiff s"
  unfolding decelDiff_def by (rule checkBounds_fst_cong) (simp_all add: decelIntegrate_eq)

lemma stepDecelAnim_unfold:
  "stepDecelAnim s =
     (if \<not> decelerating s then s\<lparr>stepDecelRaf := None\<rparr>
      else if decelStops s then (decelIntegrate (s\<lparr>stepDecelRaf := None\<rparr>))\<lparr>decelerating := False\<rparr>
      else (let s1 = decelIntegrate (s\<lparr>stepDecelRaf := None\<rparr>);
                s2 = (if bounce s then bounceAdjust (decelDiff s) s1 else clampAdjust (decelDiff s) s1);
                s3 = callUpdateCallback s2
            in s3\<lparr>frames := frames s3 @ [(nextHandle s3, StepDecelAnim)],
                  nextHandle := Suc (nextHandle s3),
                  stepDecelRaf := Some (nextHandle s3)\<rparr>))"
  using decelDiff_alt[of s]
  by (simp add: stepDecelAnim_def Let_def split_beta checkBounds_False decelStops_def
      decelIntegrate_fields null_number_def[of "Some _"] requestAnimationFrame_def)

lemma stepDecelAnim_stop:
  assumes "decelerating s" "decelStops s"
  shows "stepDecelAnim s =
     s\<lparr>stepDecelRaf := None,
       decVelX := Some (null_number (decVelX s) * friction s),
       decVelY := Some (null_number (decVelY s) * friction s),
       targetX := targetX s + null_number (decVelX s) * friction s,
       targetY := targetY s + null_number (decVelY s) * friction s,
       decelerating := False\<rparr>"
  using assms by (simp add: stepDecelAnim_unfold decelIntegrate_eq)

lemma stepDecelAnim_go:
  assumes "decelerating s" "\<not> decelStops s"
  shows "decelerating (stepDecelAnim s)"
    "stepDecelRaf (stepDecelAnim s) = Some (nextHandle s)"
    "frames (stepDecelAnim s) = frames s @ [(nextHandle s, StepDecelAnim)]"
    "calls (stepDecelAnim s) =
       calls s @ [UpdateCall (targetX (stepDecelAnim s)) (targetY (stepDecelAnim s))]"
  using assms
  by (simp_all add: stepDecelAnim_unfold Let_def callUpdateCallback_def bounceAdjust_frame
      clampAdjust_frame decelIntegrate_eq)

lemma stepDecelAnim_go_state:
  assumes "decelerating s" "\<not> decelStops s"
  shows "stepDecelAnim s =
     (let i = s\<lparr>stepDecelRaf := None,
                decVelX := Some (null_number (decVelX s) * friction s),
                decVelY := Some (null_number (decVelY s) * friction s),
                targetX := targetX s + null_number (decVelX s) * friction s,
                targetY := targetY s + null_number (decVelY s) * friction s\<rparr>;
          a = (if bounce s then bounceAdjust (decelDiff s) i else clampAdjust (decelDiff s) i)
      in a\<lparr>calls := calls s @ [UpdateCall (targetX a) (targetY a)],
           frames := frames s @ [(nextHandle s, StepDecelAnim)],
           nextHandle := Suc (nextHandle s),
           stepDecelRaf := Some (nextHandle s)\<rparr>)"
  using assms
  by (simp add: stepDecelAnim_unfold Let_def callUpdateCallback_def bounceAdjust_frame
      clampAdjust_frame decelIntegrate_eq)

lemma stepDecelAnim_go_axes:
  assumes "decelerating s" "\<not> decelStops s"
  shows "diff_x (decelDiff s) = Fin 0 \<Longrightarrow>
           decVelX (stepDecelAnim s) = Some (null_number (decVelX s) * friction s) \<and>
           targetX (stepDecelAnim s) = targetX s + null_number (decVelX s) * friction s"
    and "diff_y (decelDiff s) = Fin 0 \<Longrightarrow>
           decVelY (stepDecelAnim s) = Some (null_number (decVelY s) * friction s) \<and>
           targetY (stepDecelAnim s) = targetY s + null_number (decVelY s) * friction s"
    and "bounce s \<Longrightarrow>
           targetX (stepDecelAnim s) = targetX s + null_number (decVelX s) * friction s \<and>
           targetY (stepDecelAnim s) = targetY s + null_number (decVelY s) * friction s"
    and "\<not> bounce s \<Longrightarrow> diff_x (decelDiff s) \<noteq> Fin 0 \<Longrightarrow>
           decVelX (stepDecelAnim s) = Some (Fin 0) \<and>
           targetX (stepDecelAnim s) =
             (if Fin 0 < diff_x (decelDiff s) then null_number (boundXmin s)
              else null_number (boundXmax s))"
    and "\<not> bounce s \<Longrightarrow> diff_y (decelDiff s) \<noteq> Fin 0 \<Longrightarrow>
           decVelY (stepDecelAnim s) = Some (Fin 0) \<and>
           targetY (stepDecelAnim s) =
             (if Fin 0 < diff_y (decelDiff s) then null_number (boundYmin s)
              else null_number (boundYmax s))"
  using assms
  by (simp_all add: stepDecelAnim_unfold Let_def callUpdateCallback_def decelIntegrate_eq
      bounceAdjust_def clampAdjust_def js_eq_zero_iff)

text \<open>
  Claim C5. In a deceleration step taken while decelerating, each velocity is multiplied by the
  friction, the product is added to the target of its axis, and the bounds are evaluated on the
  new target without restricting. The step ends the deceleration (the flag is cleared, the
  slot is empty and no frame is queued) exactly when both new velocities are at most the stop
  threshold in magnitude and the new target is in bounds; then the state is the old one with
  the new velocities and targets. Otherwise the engine keeps decelerating, reports the update
  and queues the next step, and its state is the integrated one after the bounce or the clamp
  adjustment: an axis in bounds keeps the new velocity and target, with bounce both targets
  are the new ones, and without bounce an axis out of bounds has velocity 0 and its target on
  the bound.
\<close>

theorem stepDecelAnim_integrates_and_stops:
  assumes "decelerating s"
  shows "let vx = null_number (decVelX s) * friction s;
             vy = null_number (decVelY s) * friction s;
             tx = targetX s + vx;
             ty = targetY s + vy;
             d = fst (checkBounds False (s\<lparr>targetX := tx, targetY := ty\<rparr>));
             stop = (\<bar>vx\<bar> \<le> stopThreshold s \<and> \<bar>vy\<bar> \<le> stopThreshold s \<and> inBounds d);
             s' = stepDecelAnim s
         in ((\<not> decelerating s' \<and> stepDecelRaf s' = None \<and> frames s' = frames s) \<longleftrightarrow> stop) \<and>
            (stop \<longrightarrow>
               s' = s\<lparr>stepDecelRaf := None, decVelX := Some vx, decVelY := Some vy,
                      targetX := tx, targetY := ty, decelerating := False\<rparr>) \<and>
            (\<not> stop \<longrightarrow>
               decelerating s' \<and> stepDecelRaf s' = Some (nextHandle s) \<and>
               frames s' = frames s @ [(nextHandle s, StepDecelAnim)] \<and>
               calls s' = calls s @ [UpdateCall (targetX s') (targetY s')] \<and>
               s' = (let i = s\<lparr>stepDecelRaf := None, decVelX := Some vx, decVelY := Some vy,
                                targetX := tx, targetY := ty\<rparr>;
                         a = (if bounce s then bounceAdjust d i else clampAdjust d i)
                     in a\<lparr>calls := calls s @ [UpdateCall (targetX a) (targetY a)],
                          frames := frames s @ [(nextHandle s, StepDecelAnim)],
                          nextHandle := Suc (nextHandle s),
                          stepDecelRaf := Some (nextHandle s)\<rparr>) \<and>
               (diff_x d = Fin 0 \<longrightarrow> decVelX s' = Some vx \<and> targetX s' = tx) \<and>
               (diff_y d = Fin 0 \<longrightarrow> decVelY s' = Some vy \<and> targetY s' = ty) \<and>
               (bounce s \<longrightarrow> targetX s' = tx \<and> targetY s' = ty) \<and>
               (\<not> bounce s \<and> diff_x d \<noteq> Fin 0 \<longrightarrow>
                  decVelX s' = Some (Fin 0) \<and>
                  targetX s' = (if Fin 0 < diff_x d then null_number (boundXmin s)
                                else null_number (boundXmax s))) \<and>
               (\<not> bounce s \<and> diff_y d \<noteq> Fin 0 \<longrightarrow>
                  decVelY s' = Some (Fin 0) \<and>
                  targetY s' = (if Fin 0 < diff_y d then null_number (boundYmin s)
                                else null_number (boundYmax s))))"
proof -
  have stop: "(\<bar>null_number (decVelX s) * friction s\<bar> \<le> stopThreshold s \<and>
      \<bar>null_number (decVelY s) * friction s\<bar> \<le> stopThreshold s \<and>
      inBounds (fst (checkBounds False
        (s\<lparr>targetX := targetX s + null_number (decVelX s) * friction s,
           targetY := targetY s + null_number (decVelY s) * friction s\<rparr>)))) = decelStops s"
    by (simp add: decelStops_def decelDiff_def)
  have d: "fst (checkBounds False
        (s\<lparr>targetX := targetX s + null_number (decVelX s) * friction s,
           targetY := targetY s + null_number (decVelY s) * friction s\<rparr>)) = decelDiff s"
    by (simp add: decelDiff_def)
  have stop': "(\<bar>null_number (decVelX s) * friction s\<bar> \<le> stopThreshold s \<and>
      \<bar>null_number (decVelY s) * friction s\<bar> \<le> stopThreshold s \<and>
      inBounds (decelDiff s)) = decelStops s"
    by (simp add: decelStops_def)
  show ?thesis
  proof (cases "decelStops s")
    case True
    show ?thesis
      unfolding Let_def stop using True stepDecelAnim_stop[OF assms True] by simp
  next
    case False
    note go = stepDecelAnim_go[OF assms False]
    note st = stepDecelAnim_go_state[OF assms False, unfolded Let_def]
    note ax = stepDecelAnim_go_axes[OF assms False]
    show ?thesis
      unfolding Let_def d stop'
      apply (intro conjI impI)
      subgoal using False go(1) by simp
      subgoal using False by simp
      subgoal by (rule go(1))
      subgoal by (rule go(2))
      subgoal by (rule go(3))
      subgoal by (rule go(4))
      subgoal by (rule st)
      subgoal using ax(1) by simp
      subgoal using ax(1) by simp
      subgoal using ax(2) by simp
      subgoal using ax(2) by simp
      subgoal using ax(3) by simp
      subgoal using ax(3) by simp
      subgoal using ax(4) by simp
      subgoal using ax(4) by simp
      subgoal using ax(5) by simp
      subgoal using ax(5) by simp
      done
  qed
qed

theorem stepDecelAnim_integrates_and_stops_witness:
  "decelerating coasting \<and> decelerating (stepDecelAnim coasting) \<and>
   stepDecelRaf (stepDecelAnim coasting) = Some 1 \<and>
   frames (stepDecelAnim coasting) = [(1, StepDecelAnim)] \<and>
   decVelX (stepDecelAnim coasting) = Some (Fin 9.2) \<and>
   targetX (stepDecelAnim coasting) = Fin 9.2"
proof -
  have h: "decelerating coasting" by (simp add: coasting_def)
  have n: "\<not> (\<bar>null_number (decVelX coasting) * friction coasting\<bar> \<le> stopThreshold coasting)"
    by (simp add: coasting_def ex_defs null_number_def less_eq_jsnum_def Let_def)
  have f: "frames coasting = []" "nextHandle coasting = 1" by (simp_all add: coasting_def ex_defs Let_def)
  have z: "diff_x (fst (checkBounds False
      (coasting\<lparr>targetX := targetX coasting + null_number (decVelX coasting) * friction coasting,
         targetY := targetY coasting + null_number (decVelY coasting) * friction coasting\<rparr>))) = Fin 0"
    by (simp add: checkBounds_def Let_def coasting_def ex_defs)
  have v: "null_number (decVelX coasting) * friction coasting = Fin 9.2"
    "targetX coasting + null_number (decVelX coasting) * friction coasting = Fin 9.2"
    by (simp_all add: coasting_def ex_defs null_number_def Let_def)
  from stepDecelAnim_integrates_and_stops[OF h, unfolded Let_def] n z
  have "decelerating (stepDecelAnim coasting)"
    and "stepDecelRaf (stepDecelAnim coasting) = Some (nextHandle coasting)"
    and "frames (stepDecelAnim coasting) = frames coasting @ [(nextHandle coasting, StepDecelAnim)]"
    and "decVelX (stepDecelAnim coasting) =
           Some (null_number (decVelX coasting) * friction coasting)"
    and "targetX (stepDecelAnim coasting) =
           targetX coasting + null_number (decVelX coasting) * friction coasting"
    by blast+
  then show ?thesis using h f v by simp
qed

lemma diff_never_nan:
  "diff_x (fst (checkBounds r s)) = Fin 0 \<or> Fin 0 < diff_x (fst (checkBounds r s)) \<or>
   diff_x (fst (checkBounds r s)) < Fin 0"
  "diff_y (fst (checkBounds r s)) = Fin 0 \<or> Fin 0 < diff_y (fst (checkBounds r s)) \<or>
   diff_y (fst (checkBounds r s)) < Fin 0"
  using spec_overflow_cases[of "boundXmin s" "boundXmax s" "targetX s"]
        spec_overflow_cases[of "boundYmin s" "boundYmax s" "targetY s"]
  by (auto simp: diff_x_eq diff_y_eq)

lemma bounceAdjust_decVelX:
  "decVelX (bounceAdjust d s) =
     (if d_x = Fin 0 then decVelX s
      else if d_x * null_number (decVelX s) \<le> Fin 0
      then Some (null_number (decVelX s) + d_x * Fin 0.04)
      else if Fin 0 < d_x then Some ((d_x + Fin 2.5) * Fin 0.11)
      else Some ((d_x - Fin 2.5) * Fin 0.11))" if "d_x = diff_x d"
  using that
  by (simp add: bounceAdjust_def Let_def js_eq_zero_iff BOUNCE_DECELERATION_def
      BOUNCE_ACCELERATION_def add_neg_const)

lemma bounceAdjust_decVelY:
  "decVelY (bounceAdjust d s) =
     (if d_y = Fin 0 then decVelY s
      else if d_y * null_number (decVelY s) \<le> Fin 0
      then Some (null_number (decVelY s) + d_y * Fin 0.04)
      else if Fin 0 < d_y then Some ((d_y + Fin 2.5) * Fin 0.11)
      else Some ((d_y - Fin 2.5) * Fin 0.11))" if "d_y = diff_y d"
  using that
  by (simp add: bounceAdjust_def Let_def js_eq_zero_iff BOUNCE_DECELERATION_def
      BOUNCE_ACCELERATION_def add_neg_const)

lemma stepDecelAnim_bounce_vel:
  assumes "decelerating s" "\<not> decelStops s" "bounce s"
  shows "decVelX (stepDecelAnim s) =
           decVelX (bounceAdjust (decelDiff s) (decelIntegrate s))"
    "decVelY (stepDecelAnim s) =
           decVelY (bounceAdjust (decelDiff s) (decelIntegrate s))"
  using assms
  by (simp_all add: stepDecelAnim_unfold Let_def callUpdateCallback_def decelIntegrate_eq
      bounceAdjust_def js_eq_zero_iff)

text \<open>
  Claim C6. In a deceleration step that does not stop, with bounce enabled, an axis whose
  overflow \<open>o\<close> is not 0 gets the velocity \<open>vel + o * 0.04\<close> if \<open>o * vel \<le> 0\<close>, and
  otherwise \<open>(o + 2.5) * 0.11\<close> when \<open>o > 0\<close> and \<open>(o - 2.5) * 0.11\<close> when \<open>o < 0\<close>,
  where \<open>vel\<close> is the velocity after friction. The overflow is 0, positive or negative, so
  these cases are all there are.
\<close>

theorem stepDecelAnim_bounce_velocity:
  assumes "decelerating s" and "bounce s"
  shows "let vx = null_number (decVelX s) * friction s;
             vy = null_number (decVelY s) * friction s;
             d = fst (checkBounds False (s\<lparr>targetX := targetX s + vx, targetY := targetY s + vy\<rparr>));
             stop = (\<bar>vx\<bar> \<le> stopThreshold s \<and> \<bar>vy\<bar> \<le> stopThreshold s \<and> inBounds d);
             ox = diff_x d;
             oy = diff_y d;
             s' = stepDecelAnim s
         in \<not> stop \<longrightarrow>
            (ox = Fin 0 \<or> Fin 0 < ox \<or> ox < Fin 0) \<and>
            (ox \<noteq> Fin 0 \<and> ox * vx \<le> Fin 0 \<longrightarrow> decVelX s' = Some (vx + ox * Fin 0.04)) \<and>
            (\<not> ox * vx \<le> Fin 0 \<and> Fin 0 < ox \<longrightarrow> decVelX s' = Some ((ox + Fin 2.5) * Fin 0.11)) \<and>
            (\<not> ox * vx \<le> Fin 0 \<and> ox < Fin 0 \<longrightarrow> decVelX s' = Some ((ox - Fin 2.5) * Fin 0.11)) \<and>
            (oy = Fin 0 \<or> Fin 0 < oy \<or> oy < Fin 0) \<and>
            (oy \<noteq> Fin 0 \<and> oy * vy \<le> Fin 0 \<longrightarrow> decVelY s' = Some (vy + oy * Fin 0.04)) \<and>
            (\<not> oy * vy \<le> Fin 0 \<and> Fin 0 < oy \<longrightarrow> decVelY s' = Some ((oy + Fin 2.5) * Fin 0.11)) \<and>
            (\<not> oy * vy \<le> Fin 0 \<and> oy < Fin 0 \<longrightarrow> decVelY s' = Some ((oy - Fin 2.5) * Fin 0.11))"
proof -
  have stop: "(\<bar>null_number (decVelX s) * friction s\<bar> \<le> stopThreshold s \<and>
      \<bar>null_number (decVelY s) * friction s\<bar> \<le> stopThreshold s \<and>
      inBounds (fst (checkBounds False
        (s\<lparr>targetX := targetX s + null_number (decVelX s) * friction s,
           targetY := targetY s + null_number (decVelY s) * friction s\<rparr>)))) = decelStops s"
    by (simp add: decelStops_def decelDiff_def)
  have d: "fst (checkBounds False
        (s\<lparr>targetX := targetX s + null_number (decVelX s) * friction s,
           targetY := targetY s + null_number (decVelY s) * friction s\<rparr>)) = decelDiff s"
    by (simp add: decelDiff_def)
  show ?thesis
  proof (cases "decelStops s")
    case True
    then show ?thesis unfolding Let_def stop by simp
  next
    case False
    have nx: "diff_x (decelDiff s) = Fin 0 \<or> Fin 0 < diff_x (decelDiff s) \<or> diff_x (decelDiff s) < Fin 0"
      and ny: "diff_y (decelDiff s) = Fin 0 \<or> Fin 0 < diff_y (decelDiff s) \<or> diff_y (decelDiff s) < Fin 0"
      unfolding decelDiff_def by (rule diff_never_nan)+
    have vx: "decVelX (stepDecelAnim s) =
        (if diff_x (decelDiff s) = Fin 0 then Some (null_number (decVelX s) * friction s)
         else if diff_x (decelDiff s) * (null_number (decVelX s) * friction s) \<le> Fin 0
         then Some (null_number (decVelX s) * friction s + diff_x (decelDiff s) * Fin 0.04)
         else if Fin 0 < diff_x (decelDiff s) then Some ((diff_x (decelDiff s) + Fin 2.5) * Fin 0.11)
         else Some ((diff_x (decelDiff s) - Fin 2.5) * Fin 0.11))"
      unfolding stepDecelAnim_bounce_vel(1)[OF assms(1) False assms(2)]
      by (simp add: bounceAdjust_decVelX[OF refl] decelIntegrate_fields null_number_def[of "Some _"])
    have vy: "decVelY (stepDecelAnim s) =
        (if diff_y (decelDiff s) = Fin 0 then Some (null_number (decVelY s) * friction s)
         else if diff_y (decelDiff s) * (null_number (decVelY s) * friction s) \<le> Fin 0
         then Some (null_number (decVelY s) * friction s + diff_y (decelDiff s) * Fin 0.04)
         else if Fin 0 < diff_y (decelDiff s) then Some ((diff_y (decelDiff s) + Fin 2.5) * Fin 0.11)
         else Some ((diff_y (decelDiff s) - Fin 2.5) * Fin 0.11))"
      unfolding stepDecelAnim_bounce_vel(2)[OF assms(1) False assms(2)]
      by (simp add: bounceAdjust_decVelY[OF refl] decelIntegrate_fields null_number_def[of "Some _"])
    show ?thesis
      unfolding Let_def stop d using nx ny
      by (auto simp: vx vy dest: neg_not_pos pos_ne neg_ne)
  qed
qed

theorem stepDecelAnim_bounce_velocity_witness:
  "decelerating overshoot \<and> bounce overshoot \<and>
   decVelX (stepDecelAnim overshoot) = Some (Fin 3.616)"
proof -
  have h: "decelerating overshoot" "bounce overshoot" by (simp_all add: overshoot_def ex_defs Let_def)
  have v: "null_number (decVelX overshoot) * friction overshoot = Fin 4.6"
    "null_number (decVelY overshoot) * friction overshoot = Fin 0"
    "targetX overshoot = Fin 120" "targetY overshoot = Fin 0"
    "stopThreshold overshoot = Fin 0.3"
    by (simp_all add: overshoot_def ex_defs null_number_def Let_def)
  have d: "diff_x (fst (checkBounds False
      (overshoot\<lparr>targetX := Fin 120 + Fin 4.6, targetY := Fin 0 + Fin 0\<rparr>))) = Fin (- 24.6)"
    by (simp add: checkBounds_def Let_def overshoot_def ex_defs null_number_def)
  from stepDecelAnim_bounce_velocity[OF h] h show ?thesis
    unfolding Let_def v d by (simp add: less_eq_jsnum_def)
qed

subsection \<open>The wheel and the paused flag\<close>

text \<open>
  Claim C10. In a paused instance a wheel event still moves the target by \<open>-deltaX / 3\<close> and
  \<open>-deltaY / 3\<close> and calls the update callback once, and the instance stays paused; what the
  flag stops is \<open>onDown\<close>, which leaves a paused instance as it is.
\<close>

theorem onWheel_ignores_paused:
  assumes "paused s" and "deltaX ev = Some dx" and "deltaY ev = Some dy"
  shows "targetX (onWheel ev s) = targetX s - dx / Fin 3 \<and>
         targetY (onWheel ev s) = targetY s - dy / Fin 3 \<and>
         calls (onWheel ev s) = calls s @ [UpdateCall (targetX s - dx / Fin 3) (targetY s - dy / Fin 3)] \<and>
         paused (onWheel ev s) \<and>
         onDown now e s = s"
  using assms
  by (simp add: onWheel_def onDown_def Let_def callUpdateCallback_def undefined_number_def)

theorem onWheel_ignores_paused_witness:
  "paused (pause ready) \<and>
   targetX (onWheel \<lparr>is_touch = False, clientX = Fin 0, clientY = Fin 0, touch_identifier = 0,
       deltaX = Some (Fin 30), deltaY = Some (Fin (- 6))\<rparr> (pause ready)) = Fin (- 10) \<and>
   targetY (onWheel \<lparr>is_touch = False, clientX = Fin 0, clientY = Fin 0, touch_identifier = 0,
       deltaX = Some (Fin 30), deltaY = Some (Fin (- 6))\<rparr> (pause ready)) = Fin 2 \<and>
   calls (onWheel \<lparr>is_touch = False, clientX = Fin 0, clientY = Fin 0, touch_identifier = 0,
       deltaX = Some (Fin 30), deltaY = Some (Fin (- 6))\<rparr> (pause ready)) = [UpdateCall (Fin (- 10)) (Fin 2)]"
proof -
  let ?ev = "\<lparr>is_touch = False, clientX = Fin 0, clientY = Fin 0, touch_identifier = 0,
       deltaX = Some (Fin 30), deltaY = Some (Fin (- 6))\<rparr>"
  have h: "paused (pause ready)" "deltaX ?ev = Some (Fin 30)" "deltaY ?ev = Some (Fin (- 6))"
    by (simp_all add: pause_def)
  have t: "targetX (pause ready) = Fin 0" "targetY (pause ready) = Fin 0" "calls (pause ready) = []"
    by (simp_all add: pause_def ex_defs Let_def)
  from onWheel_ignores_paused[OF h] h(1) show ?thesis
    unfolding t by simp
qed

subsection \<open>The phase flags\<close>

lemma addTrackingPoint_flags:
  "pointerActive (addTrackingPoint now x y s) = pointerActive s"
  "decelerating (addTrackingPoint now x y s) = decelerating s"
  by (simp_all add: addTrackingPoint_def Let_def)

lemma requestTick_flags:
  "pointerActive (requestTick s) = pointerActive s"
  "decelerating (requestTick s) = decelerating s"
  by (simp_all add: requestTick_def requestAnimationFrame_def Let_def)

lemma checkBounds_flags:
  "pointerActive (snd (checkBounds r s)) = pointerActive s"
  "decelerating (snd (checkBounds r s)) = decelerating s"
  by (simp_all add: checkBounds_def Let_def)

lemma onDown_flags: "\<not> (decelerating s \<and> pointerActive s) \<Longrightarrow>
   \<not> (decelerating (onDown now ev s) \<and> pointerActive (onDown now ev s))"
  by (simp add: onDown_def Let_def addTrackingPoint_flags)

lemma onMove_flags:
  "pointerActive (onMove now ev s) = pointerActive s"
  "decelerating (onMove now ev s) = decelerating s"
  by (simp_all add: onMove_def Let_def addTrackingPoint_flags requestTick_flags)

lemma startDecelAnim_pointerActive:
  "startDecelAnim s = Inr s' \<Longrightarrow> pointerActive s' = pointerActive s"
  by (auto simp: startDecelAnim_def Let_def split_beta requestAnimationFrame_def checkBounds_flags
      split: list.splits if_splits)

lemma stopTracking_pointerActive: "stopTracking now s = Inr s' \<Longrightarrow> \<not> pointerActive s'"
  by (auto simp: stopTracking_def Let_def removeEventListeners_def addTrackingPoint_flags
      split: sum.splits dest!: startDecelAnim_pointerActive)

lemma onUp_flags: "\<not> (decelerating s \<and> pointerActive s) \<Longrightarrow> onUp now ev s = Inr s' \<Longrightarrow>
   \<not> (decelerating s' \<and> pointerActive s')"
  by (auto simp: onUp_def Let_def split: if_splits dest: stopTracking_pointerActive)

lemma onWheel_decelerating: "\<not> decelerating (onWheel ev s)"
  by (simp add: onWheel_def Let_def callUpdateCallback_def)

lemma stepDecelAnim_flags:
  "pointerActive (stepDecelAnim s) = pointerActive s"
  "decelerating (stepDecelAnim s) \<Longrightarrow> decelerating s"
  by (simp_all add: stepDecelAnim_unfold Let_def callUpdateCallback_def bounceAdjust_def
      clampAdjust_def decelIntegrate_eq split: if_splits)

lemma updateAndRender_flags:
  "pointerActive (updateAndRender s) = pointerActive s"
  "decelerating (updateAndRender s) = decelerating s"
  by (simp_all add: updateAndRender_def Let_def split_beta callUpdateCallback_def checkBounds_flags
      checkBounds_False)

lemma runFrame_flags: "\<not> (decelerating s \<and> pointerActive s) \<Longrightarrow>
   \<not> (decelerating (runFrame h s) \<and> pointerActive (runFrame h s))"
  by (auto simp: runFrame_def Let_def stepDecelAnim_flags(1) updateAndRender_flags
      split: option.splits frame_callback.splits dest!: stepDecelAnim_flags(2))

lemma cancel_flags: "\<not> pointerActive (cancel s)" "\<not> decelerating (cancel s)"
  by (simp_all add: cancel_def Let_def removeEventListeners_def cancelAnimationFrame_def
      split: option.splits)

lemma perform_flags:
  assumes "\<not> (decelerating s \<and> pointerActive s)" and "perform e s = Inr s'"
  shows "\<not> (decelerating s' \<and> pointerActive s')"
proof (cases e)
  case (Down now ev) with assms show ?thesis using onDown_flags[of s now ev] by auto
next
  case (Move now ev) with assms show ?thesis by (auto simp: onMove_flags)
next
  case (Up now ev) with assms show ?thesis using onUp_flags[of s now ev s'] by auto
next
  case (TouchCancel now) with assms show ?thesis by (auto dest: stopTracking_pointerActive)
next
  case (Wheel ev) with assms show ?thesis by (auto simp: onWheel_decelerating)
next
  case (Frame h) with assms show ?thesis using runFrame_flags[of s h] by auto
next
  case Pause with assms show ?thesis by (auto simp: pause_def)
next
  case Resume with assms show ?thesis by (auto simp: resume_def)
next
  case (SetValue x y) with assms show ?thesis
    by (auto simp: setValue_def Let_def split: option.splits)
next
  case (SetMultiplier v) with assms show ?thesis by (auto simp: setMultiplier_def Let_def)
next
  case (SetBoundX mn mx) with assms show ?thesis by (auto simp: setBoundX_def)
next
  case (SetBoundY mn mx) with assms show ?thesis by (auto simp: setBoundY_def)
next
  case Cancel with assms show ?thesis by (auto simp: cancel_flags)
next
  case Destroy with assms show ?thesis by (auto simp: destroy_def split: if_splits)
qed

lemma run_flags:
  "\<not> (decelerating s \<and> pointerActive s) \<Longrightarrow> run es s = Inr s' \<Longrightarrow>
   \<not> (decelerating s' \<and> pointerActive s')"
proof (induction es arbitrary: s)
  case Nil
  then show ?case by simp
next
  case (Cons e es)
  from Cons.prems(2) obtain s1 where s1: "perform e s = Inr s1" "run es s1 = Inr s'"
    by (auto split: sum.splits)
  from perform_flags[OF Cons.prems(1) s1(1)] Cons.IH[OF _ s1(2)] show ?case by blast
qed

lemma constructor_flags:
  "constructor cfg = Inr s \<Longrightarrow> \<not> decelerating s \<and> \<not> pointerActive s"
  by (auto simp: constructor_def initialState_def Let_def callUpdateCallback_def
      split: if_splits option.splits prod.splits)

text \<open>
  Claim C9. From construction on, after every event handler, frame callback and public method
  that completes (down, move, up, touch cancel, wheel, the drag-update frame, the deceleration
  start within a release and the deceleration step, pause, resume, setValue, setMultiplier,
  setBoundX, setBoundY, cancel, destroy), \<open>decelerating\<close> and \<open>pointerActive\<close> are not
  both true.
\<close>

theorem phase_flags_exclusive:
  assumes "constructor cfg = Inr s0" and "run es s0 = Inr s"
  shows "\<not> (decelerating s \<and> pointerActive s)"
  using constructor_flags[OF assms(1)] run_flags[OF _ assms(2)] by blast

lemma dragAndRelease_runs:
  "run dragAndRelease ready =
     Inr \<lparr>stepDecelRaf = Some 2, tickRaf = None, sourceEl = True, bounce = True,
        friction = Fin 0.92, multiplier = Fin 1, onDown_hook = False,
        onUp_hook = False, stopThreshold = Fin 0.3, targetX = Fin 10,
        targetY = Fin 0, paused = False, ticking = False,
        decelerating = True, pointerActive = False,
        trackingPoints =
          [\<lparr>pt_x = Some (Fin 0), pt_y = Some (Fin 0), pt_time = Fin 0\<rparr>,
           \<lparr>pt_x = Some (Fin 0), pt_y = Some (Fin 0), pt_time = Fin 50\<rparr>,
           \<lparr>pt_x = Some (Fin 10), pt_y = Some (Fin 0), pt_time = Fin 50\<rparr>],
        pointerCurrentX = Some (Fin 10), pointerCurrentY = Some (Fin 0),
        pointerLastX = Some (Fin 10), pointerLastY = Some (Fin 0),
        boundXmin = None, boundXmax = None, boundYmin = None,
        boundYmax = None, pointerId = None, decVelX = Some (Fin 3),
        decVelY = Some (Fin 0), frames = [(2, StepDecelAnim)],
        nextHandle = 3, sourceListeners = True, wheelListener = True,
        documentListeners = False, calls = [UpdateCall (Fin 10) (Fin 0)]\<rparr>"
  by (simp add: dragAndRelease_def mouseAt_def ex_defs handler_defs Let_def)

theorem phase_flags_exclusive_witness:
  "constructor defaultConfig = Inr ready \<and>
   (\<exists>s. run dragAndRelease ready = Inr s \<and> decelerating s \<and> \<not> pointerActive s)"
proof -
  obtain s where s: "run dragAndRelease ready = Inr s" "decelerating s"
    using dragAndRelease_runs by simp
  from phase_flags_exclusive[OF constructor_default s(1)] s constructor_default
  show ?thesis by blast
qed

subsection \<open>Clamping\<close>

lemma clamp_range:
  assumes "lo \<le> hi" and "t \<noteq> NaN"
  shows "lo \<le> (if spec_overflow (Some lo) (Some hi) t \<noteq> Fin 0
                 then (if Fin 0 < spec_overflow (Some lo) (Some hi) t then lo else hi) else t) \<and>
         (if spec_overflow (Some lo) (Some hi) t \<noteq> Fin 0
          then (if Fin 0 < spec_overflow (Some lo) (Some hi) t then lo else hi) else t) \<le> hi"
  using assms
  by (cases lo; cases hi; cases t) (auto simp: spec_overflow_def less_eq_jsnum_def)

lemma updateAndRender_clamp_targetX:
  assumes "\<not> bounce s"
  shows "targetX (updateAndRender s) =
     (let t = targetX s + (null_number (pointerCurrentX s) - null_number (pointerLastX s)) * multiplier s;
          d = spec_overflow (boundXmin s) (boundXmax s) t
      in if d \<noteq> Fin 0 then (if Fin 0 < d then null_number (boundXmin s) else null_number (boundXmax s))
         else t)"
  using assms
  by (simp add: updateAndRender_def Let_def callUpdateCallback_def checkBounds_targetX diff_x_eq)

lemma updateAndRender_clamp_targetY:
  assumes "\<not> bounce s"
  shows "targetY (updateAndRender s) =
     (let t = targetY s + (null_number (pointerCurrentY s) - null_number (pointerLastY s)) * multiplier s;
          d = spec_overflow (boundYmin s) (boundYmax s) t
      in if d \<noteq> Fin 0 then (if Fin 0 < d then null_number (boundYmin s) else null_number (boundYmax s))
         else t)"
  using assms
  by (simp add: updateAndRender_def Let_def callUpdateCallback_def checkBounds_targetY diff_y_eq)

lemma decelDiff_x: "diff_x (decelDiff s) =
    spec_overflow (boundXmin s) (boundXmax s) (targetX s + null_number (decVelX s) * friction s)"
  and decelDiff_y: "diff_y (decelDiff s) =
    spec_overflow (boundYmin s) (boundYmax s) (targetY s + null_number (decVelY s) * friction s)"
  by (simp_all add: decelDiff_def diff_x_eq diff_y_eq)

lemma decelStops_in_bounds:
  "decelStops s \<Longrightarrow> diff_x (decelDiff s) = Fin 0 \<and> diff_y (decelDiff s) = Fin 0"
  unfolding decelStops_def decelDiff_def using inBounds_eq by blast

lemma stepDecelAnim_clamp_targetX:
  assumes "\<not> bounce s" and "decelerating s"
  shows "targetX (stepDecelAnim s) =
     (let t = targetX s + null_number (decVelX s) * friction s;
          d = spec_overflow (boundXmin s) (boundXmax s) t
      in if d \<noteq> Fin 0 then (if Fin 0 < d then null_number (boundXmin s) else null_number (boundXmax s))
         else t)"
proof (cases "decelStops s")
  case True
  from decelStops_in_bounds[OF True] have "diff_x (decelDiff s) = Fin 0" by simp
  then show ?thesis using assms True
    by (simp add: stepDecelAnim_unfold decelIntegrate_eq decelDiff_x Let_def)
next
  case False
  then show ?thesis using assms
    by (simp add: stepDecelAnim_unfold decelIntegrate_eq Let_def callUpdateCallback_def
        clampAdjust_def js_eq_zero_iff decelDiff_x decelDiff_y)
qed

lemma stepDecelAnim_clamp_targetY:
  assumes "\<not> bounce s" and "decelerating s"
  shows "targetY (stepDecelAnim s) =
     (let t = targetY s + null_number (decVelY s) * friction s;
          d = spec_overflow (boundYmin s) (boundYmax s) t
      in if d \<noteq> Fin 0 then (if Fin 0 < d then null_number (boundYmin s) else null_number (boundYmax s))
         else t)"
proof (cases "decelStops s")
  case True
  from decelStops_in_bounds[OF True] have "diff_y (decelDiff s) = Fin 0" by simp
  then show ?thesis using assms True
    by (simp add: stepDecelAnim_unfold decelIntegrate_eq decelDiff_y Let_def)
next
  case False
  then show ?thesis using assms
    by (simp add: stepDecelAnim_unfold decelIntegrate_eq Let_def callUpdateCallback_def
        clampAdjust_def js_eq_zero_iff decelDiff_x decelDiff_y)
qed

text \<open>
  Claim C1, as amended. With bounce disabled and both bounds of an axis set, \<open>min \<le> max\<close>:
  after a drag-update frame, and after a deceleration step taken while decelerating, the target
  of that axis lies within \<open>[min, max]\<close>, provided the target the update computes before
  clamping is a number (not NaN). Nothing is said of \<open>setValue\<close>, which stores its arguments
  as they are.
\<close>

theorem clamp_keeps_target_in_bounds:
  assumes "\<not> bounce s" and "lo \<le> hi"
  shows
    "(boundXmin s = Some lo \<and> boundXmax s = Some hi \<longrightarrow>
        (targetX s + (null_number (pointerCurrentX s) - null_number (pointerLastX s)) * multiplier s \<noteq> NaN \<longrightarrow>
           lo \<le> targetX (updateAndRender s) \<and> targetX (updateAndRender s) \<le> hi) \<and>
        (decelerating s \<and> targetX s + null_number (decVelX s) * friction s \<noteq> NaN \<longrightarrow>
           lo \<le> targetX (stepDecelAnim s) \<and> targetX (stepDecelAnim s) \<le> hi)) \<and>
     (boundYmin s = Some lo \<and> boundYmax s = Some hi \<longrightarrow>
        (targetY s + (null_number (pointerCurrentY s) - null_number (pointerLastY s)) * multiplier s \<noteq> NaN \<longrightarrow>
           lo \<le> targetY (updateAndRender s) \<and> targetY (updateAndRender s) \<le> hi) \<and>
        (decelerating s \<and> targetY s + null_number (decVelY s) * friction s \<noteq> NaN \<longrightarrow>
           lo \<le> targetY (stepDecelAnim s) \<and> targetY (stepDecelAnim s) \<le> hi))"
proof (intro conjI impI)
  assume b: "boundXmin s = Some lo \<and> boundXmax s = Some hi"
    and n: "targetX s + (null_number (pointerCurrentX s) - null_number (pointerLastX s)) * multiplier s \<noteq> NaN"
  have eq: "targetX (updateAndRender s) =
      (if spec_overflow (Some lo) (Some hi) (targetX s + (null_number (pointerCurrentX s) - null_number (pointerLastX s)) * multiplier s) \<noteq> Fin 0
       then (if Fin 0 < spec_overflow (Some lo) (Some hi) (targetX s + (null_number (pointerCurrentX s) - null_number (pointerLastX s)) * multiplier s) then lo else hi)
       else targetX s + (null_number (pointerCurrentX s) - null_number (pointerLastX s)) * multiplier s)"
    by (simp add: updateAndRender_clamp_targetX[OF assms(1)] b Let_def null_number_Some)
  show "lo \<le> targetX (updateAndRender s)" "targetX (updateAndRender s) \<le> hi"
    unfolding eq using clamp_range[OF assms(2) n] by blast+
next
  assume b: "boundXmin s = Some lo \<and> boundXmax s = Some hi"
    and dn: "decelerating s \<and> targetX s + null_number (decVelX s) * friction s \<noteq> NaN"
  from dn have d: "decelerating s" and n: "targetX s + null_number (decVelX s) * friction s \<noteq> NaN"
    by simp_all
  have eq: "targetX (stepDecelAnim s) =
      (if spec_overflow (Some lo) (Some hi) (targetX s + null_number (decVelX s) * friction s) \<noteq> Fin 0
       then (if Fin 0 < spec_overflow (Some lo) (Some hi) (targetX s + null_number (decVelX s) * friction s) then lo else hi)
       else targetX s + null_number (decVelX s) * friction s)"
    by (simp add: stepDecelAnim_clamp_targetX[OF assms(1) d] b Let_def null_number_Some)
  show "lo \<le> targetX (stepDecelAnim s)" "targetX (stepDecelAnim s) \<le> hi"
    unfolding eq using clamp_range[OF assms(2) n] by blast+
next
  assume b: "boundYmin s = Some lo \<and> boundYmax s = Some hi"
    and n: "targetY s + (null_number (pointerCurrentY s) - null_number (pointerLastY s)) * multiplier s \<noteq> NaN"
  have eq: "targetY (updateAndRender s) =
      (if spec_overflow (Some lo) (Some hi) (targetY s + (null_number (pointerCurrentY s) - null_number (pointerLastY s)) * multiplier s) \<noteq> Fin 0
       then (if Fin 0 < spec_overflow (Some lo) (Some hi) (targetY s + (null_number (pointerCurrentY s) - null_number (pointerLastY s)) * multiplier s) then lo else hi)
       else targetY s + (null_number (pointerCurrentY s) - null_number (pointerLastY s)) * multiplier s)"
    by (simp add: updateAndRender_clamp_targetY[OF assms(1)] b Let_def null_number_Some)
  show "lo \<le> targetY (updateAndRender s)" "targetY (updateAndRender s) \<le> hi"
    unfolding eq using clamp_range[OF assms(2) n] by blast+
next
  assume b: "boundYmin s = Some lo \<and> boundYmax s = Some hi"
    and dn: "decelerating s \<and> targetY s + null_number (decVelY s) * friction s \<noteq> NaN"
  from dn have d: "decelerating s" and n: "targetY s + null_number (decVelY s) * friction s \<noteq> NaN"
    by simp_all
  have eq: "targetY (stepDecelAnim s) =
      (if spec_overflow (Some lo) (Some hi) (targetY s + null_number (decVelY s) * friction s) \<noteq> Fin 0
       then (if Fin 0 < spec_overflow (Some lo) (Some hi) (targetY s + null_number (decVelY s) * friction s) then lo else hi)
       else targetY s + null_number (decVelY s) * friction s)"
    by (simp add: stepDecelAnim_clamp_targetY[OF assms(1) d] b Let_def null_number_Some)
  show "lo \<le> targetY (stepDecelAnim s)" "targetY (stepDecelAnim s) \<le> hi"
    unfolding eq using clamp_range[OF assms(2) n] by blast+
qed

theorem clamp_keeps_target_in_bounds_witness:
  "\<not> bounce clamping \<and> Fin 0 \<le> Fin 100 \<and>
   boundXmin clamping = Some (Fin 0) \<and> boundXmax clamping = Some (Fin 100) \<and>
   Fin 0 \<le> targetX (updateAndRender (clamping\<lparr>pointerCurrentX := Some (Fin 150),
                                              pointerLastX := Some (Fin 0)\<rparr>)) \<and>
   targetX (updateAndRender (clamping\<lparr>pointerCurrentX := Some (Fin 150),
                                      pointerLastX := Some (Fin 0)\<rparr>)) \<le> Fin 100 \<and>
   Fin 0 \<le> targetX (stepDecelAnim (clamping\<lparr>decelerating := True, decVelX := Some (Fin 200)\<rparr>)) \<and>
   targetX (stepDecelAnim (clamping\<lparr>decelerating := True, decVelX := Some (Fin 200)\<rparr>)) \<le> Fin 100"
proof -
  let ?a = "clamping\<lparr>pointerCurrentX := Some (Fin 150), pointerLastX := Some (Fin 0)\<rparr>"
  let ?b = "clamping\<lparr>decelerating := True, decVelX := Some (Fin 200)\<rparr>"
  have c: "\<not> bounce clamping" "boundXmin clamping = Some (Fin 0)" "boundXmax clamping = Some (Fin 100)"
    by (simp_all add: clamping_def)
  have le: "Fin 0 \<le> Fin 100" by (simp add: less_eq_jsnum_def)
  have a: "\<not> bounce ?a" "boundXmin ?a = Some (Fin 0) \<and> boundXmax ?a = Some (Fin 100)"
    "targetX ?a + (null_number (pointerCurrentX ?a) - null_number (pointerLastX ?a)) * multiplier ?a \<noteq> NaN"
    by (simp_all add: clamping_def ex_defs null_number_def Let_def)
  have b: "\<not> bounce ?b" "boundXmin ?b = Some (Fin 0) \<and> boundXmax ?b = Some (Fin 100)"
    "decelerating ?b \<and> targetX ?b + null_number (decVelX ?b) * friction ?b \<noteq> NaN"
    by (simp_all add: clamping_def ex_defs null_number_def Let_def)
  from clamp_keeps_target_in_bounds[OF a(1) le] a(2,3)
  have "Fin 0 \<le> targetX (updateAndRender ?a) \<and> targetX (updateAndRender ?a) \<le> Fin 100" by blast
  moreover from clamp_keeps_target_in_bounds[OF b(1) le] b(2,3)
  have "Fin 0 \<le> targetX (stepDecelAnim ?b) \<and> targetX (stepDecelAnim ?b) \<le> Fin 100" by blast
  ultimately show ?thesis using c le by blast
qed

text \<open>
  Claim C1 as stated fails: \<open>setValue(150)\<close> leaves the target at 150 with bounce disabled
  and bounds \<open>[0, 100]\<close>; with bounds \<open>[10, 0]\<close> a drag update puts the target at 10, above
  the maximum; and with a NaN multiplier the target becomes NaN, which no comparison bounds.
\<close>

theorem clamp_invariant_counterexample:
  "\<not> bounce clamping \<and> boundXmin clamping = Some (Fin 0) \<and> boundXmax clamping = Some (Fin 100) \<and>
   targetX (setValue (Some (Fin 150)) None clamping) = Fin 150 \<and>
   \<not> targetX (setValue (Some (Fin 150)) None clamping) \<le> Fin 100 \<and>
   targetX (updateAndRender (setBoundX (Some (Fin 10), Some (Fin 0)) clamping)) = Fin 10 \<and>
   \<not> targetX (updateAndRender (setBoundX (Some (Fin 10), Some (Fin 0)) clamping)) \<le> Fin 0 \<and>
   targetX (updateAndRender (setMultiplier NaN clamping)) = NaN \<and>
   \<not> Fin 0 \<le> targetX (updateAndRender (setMultiplier NaN clamping))"
  by (simp add: clamping_def ex_defs setValue_def setBoundX_def setMultiplier_def updateAndRender_def
      checkBounds_def callUpdateCallback_def Let_def null_number_def js_eq_def less_eq_jsnum_def)

subsection \<open>Termination of the deceleration\<close>

lemma stepDecelAnim_bounds:
  "boundXmin (stepDecelAnim s) = boundXmin s" "boundXmax (stepDecelAnim s) = boundXmax s"
  "boundYmin (stepDecelAnim s) = boundYmin s" "boundYmax (stepDecelAnim s) = boundYmax s"
  by (simp_all add: stepDecelAnim_unfold decelIntegrate_eq Let_def callUpdateCallback_def
      bounceAdjust_def clampAdjust_def)

lemma unbounded_in_bounds:
  assumes "boundXmin s = None" "boundXmax s = None" "boundYmin s = None" "boundYmax s = None"
  shows "inBounds (decelDiff ((stepDecelAnim ^^ k) s))"
proof -
  have "boundXmin ((stepDecelAnim ^^ k) s) = None \<and> boundXmax ((stepDecelAnim ^^ k) s) = None \<and>
        boundYmin ((stepDecelAnim ^^ k) s) = None \<and> boundYmax ((stepDecelAnim ^^ k) s) = None"
    using assms by (induction k) (simp_all add: stepDecelAnim_bounds)
  then show ?thesis
    by (simp add: decelDiff_def checkBounds_def Let_def js_eq_def)
qed

lemma abs_not_below_negative: "t < 0 \<Longrightarrow> \<not> \<bar>a\<bar> \<le> Fin t"
  by (cases a) (auto simp: less_eq_jsnum_def)

lemma negative_threshold_never_stops:
  assumes "stopThreshold s = Fin t" and "t < 0" and "decelerating s"
  shows "decelLoop n s = None"
  using assms
proof (induction n arbitrary: s)
  case 0
  then show ?case by simp
next
  case (Suc n)
  have ns: "\<not> decelStops s"
    using Suc.prems(1,2) by (simp add: decelStops_def abs_not_below_negative)
  have "stopThreshold (stepDecelAnim s) = Fin t" "decelerating (stepDecelAnim s)"
    using Suc.prems ns
    by (simp_all add: stepDecelAnim_unfold decelIntegrate_eq Let_def callUpdateCallback_def
        bounceAdjust_def clampAdjust_def)
  from Suc.IH[OF this(1) Suc.prems(2) this(2)] Suc.prems(3) show ?case by simp
qed

lemma unbounded_decelDiff:
  assumes "boundXmin s = None" "boundXmax s = None" "boundYmin s = None" "boundYmax s = None"
  shows "diff_x (decelDiff s) = Fin 0" "diff_y (decelDiff s) = Fin 0" "inBounds (decelDiff s)"
  using assms by (simp_all add: decelDiff_def checkBounds_def Let_def js_eq_def)

lemma infinite_velocity_never_stops:
  assumes "decelerating s" and "friction s = Fin f" and "0 < f" and "stopThreshold s = Fin t"
    and "decVelX s = Some PosInf"
    and "boundXmin s = None" "boundXmax s = None" "boundYmin s = None" "boundYmax s = None"
  shows "decelLoop n s = None"
  using assms
proof (induction n arbitrary: s)
  case 0
  then show ?case by simp
next
  case (Suc n)
  have ns: "\<not> decelStops s"
    using Suc.prems(2-5) by (simp add: decelStops_def null_number_Some less_eq_jsnum_def)
  note z = unbounded_decelDiff(1,2)[OF Suc.prems(6-9)]
  have a: "decelerating (stepDecelAnim s)" "friction (stepDecelAnim s) = Fin f"
    "stopThreshold (stepDecelAnim s) = Fin t" "decVelX (stepDecelAnim s) = Some PosInf"
    using Suc.prems(1-5) ns z
    by (simp_all add: stepDecelAnim_unfold decelIntegrate_eq Let_def callUpdateCallback_def
        bounceAdjust_def clampAdjust_def js_eq_zero_iff null_number_Some)
  have b: "boundXmin (stepDecelAnim s) = None" "boundXmax (stepDecelAnim s) = None"
    "boundYmin (stepDecelAnim s) = None" "boundYmax (stepDecelAnim s) = None"
    using Suc.prems(6-9) by (simp_all add: stepDecelAnim_bounds)
  from Suc.IH[OF a(1,2) Suc.prems(3) a(3,4) b] Suc.prems(1) show ?case by simp
qed

lemma sameMillisecond_state:
  "\<exists>s. run sameMillisecond ready = Inr s \<and> decelerating s \<and> decVelX s = Some PosInf \<and>
        friction s = Fin 0.92 \<and> stopThreshold s = Fin 0.3 \<and>
        boundXmin s = None \<and> boundXmax s = None \<and> boundYmin s = None \<and> boundYmax s = None"
  by (simp add: sameMillisecond_def mouseAt_def ex_defs handler_defs Let_def)

text \<open>
  Claim C7 fails on the code. After the release of the drag whose events share one
  millisecond, the velocity is \<open>Infinity\<close>; with the default friction 0.92 and threshold
  0.3 every step leaves it at \<open>Infinity\<close>, which is never below the threshold, and with no
  bounds the target is in bounds at every step: the loop never stops. The same holds with a
  finite velocity after \<open>setMultiplier(-1)\<close>: the threshold is \<open>-0.3\<close> and no magnitude
  is below it.
\<close>

theorem decelLoop_never_stops:
  "(\<exists>s. run sameMillisecond ready = Inr s \<and> decelerating s \<and> decVelX s = Some PosInf \<and>
        friction s = Fin 0.92 \<and> stopThreshold s = Fin 0.3 \<and>
        (\<forall>k. inBounds (decelDiff ((stepDecelAnim ^^ k) s))) \<and>
        (\<forall>n. decelLoop n s = None)) \<and>
   friction reversed = Fin 0.92 \<and> decVelX reversed = Some (Fin 10) \<and>
   multiplier reversed = Fin (- 1) \<and> stopThreshold reversed = Fin (- 0.3) \<and>
   decelerating reversed \<and>
   (\<forall>k. inBounds (decelDiff ((stepDecelAnim ^^ k) reversed))) \<and>
   (\<forall>n. decelLoop n reversed = None)"
proof -
  from sameMillisecond_state obtain s where s: "run sameMillisecond ready = Inr s"
    "decelerating s" "decVelX s = Some PosInf" "friction s = Fin 0.92" "stopThreshold s = Fin 0.3"
    "boundXmin s = None" "boundXmax s = None" "boundYmin s = None" "boundYmax s = None"
    by blast
  have ibs: "\<forall>k. inBounds (decelDiff ((stepDecelAnim ^^ k) s))"
    by (intro allI unbounded_in_bounds s)
  have ls: "\<forall>n. decelLoop n s = None"
    by (intro allI infinite_velocity_never_stops[OF s(2,4) _ s(5,3,6-9)]) simp
  have c: "friction reversed = Fin 0.92" "decVelX reversed = Some (Fin 10)"
    "multiplier reversed = Fin (- 1)" "stopThreshold reversed = Fin (- 0.3)" "decelerating reversed"
    by (simp_all add: reversed_def setMultiplier_def coasting_def ex_defs Let_def)
  have ib: "\<forall>k. inBounds (decelDiff ((stepDecelAnim ^^ k) reversed))"
    by (intro allI unbounded_in_bounds)
      (simp_all add: reversed_def setMultiplier_def coasting_def ex_defs Let_def)
  have lr: "\<forall>n. decelLoop n reversed = None"
    by (intro allI negative_threshold_never_stops[OF c(4) _ c(5)]) simp
  from s(1-5) ibs ls c ib lr show ?thesis by blast
qed

subsection \<open>Velocity estimation\<close>

text \<open>
  Between two finite samples with \<open>t0 < t1\<close> and a finite nonzero multiplier the estimate is
  \<open>(x1 - x0) / ((t1 - t0) / 15 / multiplier)\<close>.
\<close>

lemma startDecelAnim_velocity:
  assumes "trackingPoints s = p0 # ps" and "last (p0 # ps) = p1"
    and "pt_x p0 = Some (Fin x0)" and "pt_time p0 = Fin t0"
    and "pt_x p1 = Some (Fin x1)" and "pt_time p1 = Fin t1"
    and "multiplier s = Fin m" and "m \<noteq> 0" and "t0 < t1"
    and "startDecelAnim s = Inr s'"
  shows "decVelX s' = Some (Fin ((x1 - x0) / ((t1 - t0) / 15 / m)))"
  using assms
  by (auto simp: startDecelAnim_def Let_def split_beta checkBounds_False requestAnimationFrame_def
      null_number_Some js_or_def js_truthy_def split: if_splits)

text \<open>
  Claim C2 fails on the code. With the oldest and the newest sample in the same millisecond
  and different positions, \<open>D\<close> is 0, \<open>xOffset / D\<close> is \<open>Infinity\<close>, which is truthy, so
  \<open>|| 0\<close> keeps it: the estimated velocity is \<open>Infinity\<close>, not 0, and the next step moves
  the target to \<open>Infinity\<close>. The first part runs the events from a new instance, the second
  calls \<open>startDecelAnim\<close> on the two samples alone.
\<close>

theorem startDecelAnim_infinite_velocity:
  "(\<exists>s. run sameMillisecond ready = Inr s \<and> decVelX s = Some PosInf \<and> decelerating s \<and>
        targetX (stepDecelAnim s) = PosInf \<and> decelerating (stepDecelAnim s)) \<and>
   (\<exists>s. startDecelAnim (ready\<lparr>trackingPoints :=
           [\<lparr>pt_x = Some (Fin 0), pt_y = Some (Fin 0), pt_time = Fin 1000\<rparr>,
            \<lparr>pt_x = Some (Fin 10), pt_y = Some (Fin 0), pt_time = Fin 1000\<rparr>]\<rparr>) = Inr s \<and>
        decVelX s = Some PosInf)"
  by (simp add: sameMillisecond_def mouseAt_def ex_defs handler_defs Let_def)

subsection \<open>Pending frames\<close>

text \<open>
  What \<open>cancel\<close> does unschedule: the frames whose handles the two slots hold.
\<close>

lemma cancel_unschedules_slots:
  "stepDecelRaf (cancel s) = None \<or> stepDecelRaf (cancel s) = Some 0"
  "tickRaf (cancel s) = None \<or> tickRaf (cancel s) = Some 0"
  "stepDecelRaf s = Some h \<Longrightarrow> h \<noteq> 0 \<Longrightarrow> h \<notin> fst ` set (frames (cancel s))"
  "tickRaf s = Some h \<Longrightarrow> h \<noteq> 0 \<Longrightarrow> h \<notin> fst ` set (frames (cancel s))"
  by (auto simp: cancel_def Let_def removeEventListeners_def cancelAnimationFrame_def
      split: option.splits)

text \<open>
  Claim C3 fails on the code. After a release that starts the deceleration, \<open>destroy\<close>
  leaves the step queued and its handle in the slot, and the frame then calls the update
  callback. \<open>cancel\<close> empties both slots, but \<open>startDecelAnim\<close> overwrites the slot of a
  step that is still queued, so after two releases in one frame \<open>cancel\<close> leaves the first
  step queued.
\<close>

theorem destroy_leaves_step_pending:
  "(\<exists>s. run (dragAndRelease @ [Destroy]) ready = Inr s \<and>
        stepDecelRaf s = Some 2 \<and> frames s = [(2, StepDecelAnim)] \<and>
        calls s = [UpdateCall (Fin 10) (Fin 0)] \<and>
        calls (runFrame 2 s) = [UpdateCall (Fin 10) (Fin 0), UpdateCall (Fin 12.76) (Fin 0)]) \<and>
   (\<exists>s. run tapTwiceAndCancel ready = Inr s \<and>
        stepDecelRaf s = None \<and> tickRaf s = None \<and> frames s = [(1, StepDecelAnim)])"
  by (simp add: dragAndRelease_def tapTwiceAndCancel_def mouseAt_def ex_defs handler_defs Let_def
      setBoundX_def setValue_def cancel_def)

end
